theory Spec2Isabelle
  imports Complex_Main "HOL-Library.Multiset"
begin

section \<open>The per-date cache of \<open>getAllLibraryData\<close>\<close>

text \<open>
  \<open>server/index.js\<close> keeps two module-level tables: \<open>dataCache\<close> (a plain object keyed
  by the cache key) and \<open>inFlight\<close> (a \<open>Map\<close> from the cache key to the promise of the
  population that is running for it). JavaScript runs one job at a time, so
  \<open>getAllLibraryData\<close> is modelled as the jobs it is made of, each one a function on
  the state:
  \<^item> \<open>getAllLibraryData\<close>: the synchronous part of a call, up to its first \<open>await\<close>
    (the freshness test, the look-up in \<open>inFlight\<close>, the start of the population and
    \<open>inFlight.set\<close>);
  \<^item> \<open>populationSettles\<close>: the continuation of the inner async function after
    \<open>await Promise.all(...)\<close>, which writes \<open>dataCache\<close> and fulfils the promise, or the
    rejection of the promise when \<open>Promise.all\<close> rejects;
  \<^item> \<open>initiatorResumes\<close>: the continuation of the call that started the population,
    after \<open>await fetchPromise\<close>: the \<open>finally\<close> block with \<open>inFlight.delete\<close>.
  A caller that found a population in flight only reads the promise when it resumes;
  what it returns is \<open>waiterResult\<close>.

  Times are milliseconds since the epoch (\<open>Date.now()\<close>), as integers. Promises are
  numbered in the order of their creation; the list \<open>populations\<close> records, for each,
  the cache key of its closure, its \<open>startedAt\<close>, how it settled and whether its
  initiator has run its \<open>finally\<close> block.
\<close>

record 'd cache_entry =
  lastUpdated :: int
  data :: 'd
  lastFetchDurationMs :: int

text \<open>The object a call resolves to; a field that the object does not have is \<open>None\<close>.\<close>

record 'd response =
  res_data :: 'd
  fetchedAt :: int
  fetchDurationMs :: "int option"
  cacheHit :: "bool option"
  deduped :: "bool option"

datatype 'd promise_state = Pending | Fulfilled "'d response" | Rejected string

record 'd population =
  pkey :: string
  startedAt :: int
  status :: "'d promise_state"
  initiatorDone :: bool

record 'd server_state =
  dataCache :: "string \<rightharpoonup> 'd cache_entry"
  inFlight :: "string \<rightharpoonup> nat"
  populations :: "'d population list"

definition init_state :: "'d server_state" where
  "init_state = \<lparr>dataCache = Map.empty, inFlight = Map.empty, populations = []\<rparr>"

text \<open>\<open>const cacheKey = dateStr || 'today'\<close>: an absent or empty date string is falsy.\<close>

definition cacheKey :: "string option \<Rightarrow> string" where
  "cacheKey dateStr =
     (case dateStr of None \<Rightarrow> ''today'' | Some s \<Rightarrow> if s = [] then ''today'' else s)"

text \<open>
  \<open>entry?.data && entry?.lastUpdated && (now - entry.lastUpdated) < CACHE_TTL\<close>.
  \<open>data\<close> is always the array of results, which is truthy; \<open>lastUpdated\<close> is a number,
  truthy unless it is \<open>0\<close>.
\<close>

definition isFresh :: "int \<Rightarrow> 'd cache_entry option \<Rightarrow> int \<Rightarrow> bool" where
  "isFresh ttl entry now =
     (case entry of None \<Rightarrow> False
      | Some e \<Rightarrow> lastUpdated e \<noteq> 0 \<and> now - lastUpdated e < ttl)"

text \<open>\<open>CACHE_TTL\<close> is \<open>50 * 1000\<close> in \<open>server/index.js\<close>; the second server file has
  \<open>60 * 1000\<close>. The functions below take the TTL as their first argument.\<close>

definition CACHE_TTL :: int where
  "CACHE_TTL = 50 * 1000"

text \<open>What the synchronous part of a call leaves the caller with.\<close>

datatype 'd call_outcome =
    Returned "'d response"
  | AwaitsInFlight nat
  | AwaitsOwn nat

text \<open>
  The synchronous part of \<open>getAllLibraryData(dateStr, {force})\<close>. \<open>now\<close> is the
  \<open>Date.now()\<close> of its second line, \<open>started\<close> the \<open>Date.now()\<close> read by the inner async
  function, which runs up to its \<open>await\<close> before \<open>inFlight.set\<close>.
\<close>

definition getAllLibraryData ::
  "int \<Rightarrow> 'd server_state \<Rightarrow> string option \<Rightarrow> bool \<Rightarrow> int \<Rightarrow> int
     \<Rightarrow> 'd server_state \<times> 'd call_outcome" where
  "getAllLibraryData ttl st dateStr force now started =
     (let k = cacheKey dateStr; entry = dataCache st k in
      if \<not> force \<and> isFresh ttl entry now then
        (st, Returned \<lparr>res_data = data (the entry), fetchedAt = lastUpdated (the entry),
                        fetchDurationMs = None, cacheHit = Some True, deduped = None\<rparr>)
      else
        (case inFlight st k of
           Some p \<Rightarrow> (st, AwaitsInFlight p)
         | None \<Rightarrow>
            (st\<lparr>inFlight := (inFlight st)(k \<mapsto> length (populations st)),
                populations := populations st @
                  [\<lparr>pkey = k, startedAt = started, status = Pending, initiatorDone = False\<rparr>]\<rparr>,
             AwaitsOwn (length (populations st)))))"

text \<open>
  The population \<open>p\<close> settles at time \<open>finishedAt\<close>: with \<open>Inr results\<close> the inner function
  goes on after \<open>Promise.all\<close>, writes the entry and returns; with \<open>Inl err\<close> the
  \<open>await\<close> throws and nothing after it runs. A promise settles once.
\<close>

definition populationSettles ::
  "'d server_state \<Rightarrow> nat \<Rightarrow> string + 'd \<Rightarrow> int \<Rightarrow> 'd server_state" where
  "populationSettles st p outcome finishedAt =
     (if p < length (populations st) \<and> status (populations st ! p) = Pending then
        (let pop = populations st ! p in
         case outcome of
           Inr results \<Rightarrow>
             st\<lparr>dataCache := (dataCache st)(pkey pop \<mapsto>
                    \<lparr>lastUpdated = finishedAt, data = results,
                     lastFetchDurationMs = finishedAt - startedAt pop\<rparr>),
                populations := (populations st)[p := pop\<lparr>status := Fulfilled
                    \<lparr>res_data = results, fetchedAt = finishedAt,
                     fetchDurationMs = Some (finishedAt - startedAt pop),
                     cacheHit = None, deduped = None\<rparr>\<rparr>]\<rparr>
         | Inl err \<Rightarrow>
             st\<lparr>populations := (populations st)[p := pop\<lparr>status := Rejected err\<rparr>]\<rparr>)
      else st)"

text \<open>\<open>try { return await fetchPromise; } finally { inFlight.delete(cacheKey); }\<close>\<close>

definition initiatorResumes :: "'d server_state \<Rightarrow> nat \<Rightarrow> 'd server_state" where
  "initiatorResumes st p =
     (if p < length (populations st) \<and> status (populations st ! p) \<noteq> Pending
         \<and> \<not> initiatorDone (populations st ! p) then
        st\<lparr>inFlight := (inFlight st)(pkey (populations st ! p) := None),
           populations := (populations st)[p := (populations st ! p)\<lparr>initiatorDone := True\<rparr>]\<rparr>
      else st)"

text \<open>What the initiator returns or throws once its promise has settled (\<open>None\<close>: not yet).\<close>

definition initiatorResult :: "'d population \<Rightarrow> (string + 'd response) option" where
  "initiatorResult pop =
     (case status pop of Pending \<Rightarrow> None
      | Fulfilled r \<Rightarrow> Some (Inr r)
      | Rejected err \<Rightarrow> Some (Inl err))"

text \<open>\<open>const result = await inFlight.get(cacheKey);
  return { ...result, cacheHit: false, deduped: true };\<close>\<close>

definition waiterResult :: "'d population \<Rightarrow> (string + 'd response) option" where
  "waiterResult pop =
     (case status pop of Pending \<Rightarrow> None
      | Fulfilled r \<Rightarrow> Some (Inr (r\<lparr>cacheHit := Some False, deduped := Some True\<rparr>))
      | Rejected err \<Rightarrow> Some (Inl err))"

text \<open>What a caller gets for the outcome of its synchronous part, in a later state.\<close>

definition resolvesTo ::
  "'d server_state \<Rightarrow> 'd call_outcome \<Rightarrow> (string + 'd response) option" where
  "resolvesTo st out =
     (case out of
        Returned r \<Rightarrow> Some (Inr r)
      | AwaitsOwn p \<Rightarrow>
          (if p < length (populations st) then initiatorResult (populations st ! p) else None)
      | AwaitsInFlight p \<Rightarrow>
          (if p < length (populations st) then waiterResult (populations st ! p) else None))"

text \<open>
  The jobs that touch the two tables. \<open>Invalidate\<close> is the \<open>delete dataCache[cacheKey]\<close>
  of the \<open>/api/refresh\<close> route.
\<close>

datatype 'd event =
    Call "string option" bool int int
  | Settles nat "string + 'd" int
  | InitiatorResumes nat
  | Invalidate "string option"

fun step :: "int \<Rightarrow> 'd server_state \<Rightarrow> 'd event \<Rightarrow> 'd server_state" where
  "step ttl st (Call dateStr force now started) =
     fst (getAllLibraryData ttl st dateStr force now started)"
| "step ttl st (Settles p outcome finishedAt) = populationSettles st p outcome finishedAt"
| "step ttl st (InitiatorResumes p) = initiatorResumes st p"
| "step ttl st (Invalidate dateStr) =
     st\<lparr>dataCache := (dataCache st)(cacheKey dateStr := None)\<rparr>"

fun run :: "int \<Rightarrow> 'd server_state \<Rightarrow> 'd event list \<Rightarrow> 'd server_state" where
  "run ttl st [] = st"
| "run ttl st (e # es) = run ttl (step ttl st e) es"

text \<open>A population is running for key \<open>k\<close>: its promise exists and has not settled.\<close>

definition running :: "'d server_state \<Rightarrow> string \<Rightarrow> nat \<Rightarrow> bool" where
  "running st k p =
     (p < length (populations st) \<and> pkey (populations st ! p) = k
        \<and> status (populations st ! p) = Pending)"

text \<open>The number of populations ever started for key \<open>k\<close>.\<close>

definition startedFor :: "'d server_state \<Rightarrow> string \<Rightarrow> nat" where
  "startedFor st k = length (filter (\<lambda>pop. pkey pop = k) (populations st))"

text \<open>
  The invariant that ties the two tables to the promises: \<open>inFlight\<close> holds exactly the
  populations whose initiator has not yet run its \<open>finally\<close> block, each under its own
  key, and an initiator resumes only after its promise has settled.
\<close>

definition inv :: "'d server_state \<Rightarrow> bool" where
  "inv st =
     ((\<forall>k p. inFlight st k = Some p \<longrightarrow>
          p < length (populations st) \<and> pkey (populations st ! p) = k
            \<and> \<not> initiatorDone (populations st ! p))
      \<and> (\<forall>p < length (populations st).
            \<not> initiatorDone (populations st ! p) \<longrightarrow>
              inFlight st (pkey (populations st ! p)) = Some p)
      \<and> (\<forall>p < length (populations st).
            status (populations st ! p) = Pending \<longrightarrow> \<not> initiatorDone (populations st ! p)))"

text \<open>
  Several calls made one after the other, with no other job in between: the state they
  leave and what each caller is left with. A call is \<open>(dateStr, force, now, started)\<close>.
\<close>

type_synonym call = "string option \<times> bool \<times> int \<times> int"

fun callAll ::
  "int \<Rightarrow> 'd server_state \<Rightarrow> call list \<Rightarrow> 'd server_state \<times> 'd call_outcome list" where
  "callAll ttl st [] = (st, [])"
| "callAll ttl st ((dateStr, force, now, started) # cs) =
     (case getAllLibraryData ttl st dateStr force now started of
        (st1, out) \<Rightarrow> (case callAll ttl st1 cs of (st2, outs) \<Rightarrow> (st2, out # outs)))"

text \<open>The call is for key \<open>k\<close> and is not served from the cache: it is forced, or the
  entry of \<open>k\<close> is not fresh at its \<open>now\<close>.\<close>

definition missOn :: "int \<Rightarrow> 'd server_state \<Rightarrow> string \<Rightarrow> call \<Rightarrow> bool" where
  "missOn ttl st k c =
     (case c of (dateStr, force, now, started) \<Rightarrow>
        cacheKey dateStr = k \<and> (force \<or> \<not> isFresh ttl (dataCache st k) now))"

text \<open>The promise that callers of key \<open>k\<close> arriving in state \<open>st\<close> end up awaiting: the
  one in \<open>inFlight\<close>, or the one the first of them creates.\<close>

definition sharedPopulation :: "'d server_state \<Rightarrow> string \<Rightarrow> nat" where
  "sharedPopulation st k =
     (case inFlight st k of None \<Rightarrow> length (populations st) | Some p \<Rightarrow> p)"

subsection \<open>Example runs\<close>

definition ex_key :: "string option" where
  "ex_key = Some ''2026-01-20''"

text \<open>One call, whose population is still running.\<close>

definition ex_in_flight :: "string event list" where
  "ex_in_flight = [Call ex_key False 1000 1000]"

text \<open>A call at 1000 whose population completed at 4000.\<close>

definition ex_fresh :: "string event list" where
  "ex_fresh = [Call ex_key False 1000 1000, Settles 0 (Inr ''snapshot 1'') 4000,
               InitiatorResumes 0]"

text \<open>Then a forced call at 5000, whose population is still running.\<close>

definition ex_fresh_in_flight :: "string event list" where
  "ex_fresh_in_flight = ex_fresh @ [Call ex_key True 5000 5000]"

text \<open>Or, instead, a call at 60000, after the entry has expired, whose population is
  still running.\<close>

definition ex_expired_in_flight :: "string event list" where
  "ex_expired_in_flight = ex_fresh @ [Call ex_key False 60000 60000]"

text \<open>Three callers of the same key, the last one forced.\<close>

definition ex_three_calls :: "call list" where
  "ex_three_calls = [(ex_key, False, 1000, 1000), (ex_key, False, 1100, 1100),
                     (ex_key, True, 1200, 1200)]"

section \<open>Strings and regular expressions of the hours parser\<close>

text \<open>
  A JavaScript string is a sequence of UTF-16 code units, here a list of natural
  numbers; \<open>js\<close> turns an ASCII literal into one. The en dash is the code unit 8211.
\<close>

type_synonym jsstring = "nat list"

definition js :: "string \<Rightarrow> jsstring" where
  "js s = map of_char s"

text \<open>\<open>String.prototype.includes\<close>.\<close>

fun includesStr :: "jsstring \<Rightarrow> jsstring \<Rightarrow> bool" where
  "includesStr [] sub = (sub = [])"
| "includesStr (x # xs) sub = (take (length sub) (x # xs) = sub \<or> includesStr xs sub)"

text \<open>The white space of \<open>\s\<close> and of \<open>trim\<close>: ECMAScript's WhiteSpace and LineTerminator.\<close>

definition isSpace :: "nat \<Rightarrow> bool" where
  "isSpace x = (x \<in> {9, 10, 11, 12, 13, 32, 160, 5760, 8232, 8233, 8239, 8287, 12288, 65279}
                 \<or> (8192 \<le> x \<and> x \<le> 8202))"

definition isDigit :: "nat \<Rightarrow> bool" where
  "isDigit x = (48 \<le> x \<and> x \<le> 57)"

definition trim :: "jsstring \<Rightarrow> jsstring" where
  "trim s = rev (dropWhile isSpace (rev (dropWhile isSpace s)))"

text \<open>
  Case mapping, on the letters A to Z and a to z. The strings that the parser compares
  after \<open>toLowerCase\<close> (\<open>'closed'\<close>, \<open>'24 hour'\<close>, \<open>'pm'\<close>, \<open>'am'\<close>) are ASCII, and no code
  unit outside ASCII has one of their letters as its lower case, so that the comparisons
  come out as in JavaScript; the same holds for the case-insensitive matching of the
  \<open>i\<close> flag, which maps no code unit outside ASCII to an ASCII one.
\<close>

definition lowerUnit :: "nat \<Rightarrow> nat" where
  "lowerUnit x = (if 65 \<le> x \<and> x \<le> 90 then x + 32 else x)"

definition upperUnit :: "nat \<Rightarrow> nat" where
  "upperUnit x = (if 97 \<le> x \<and> x \<le> 122 then x - 32 else x)"

definition toLowerCase :: "jsstring \<Rightarrow> jsstring" where
  "toLowerCase s = map lowerUnit s"

text \<open>\<open>parseInt\<close> of a string of decimal digits.\<close>

definition parseInt :: "jsstring \<Rightarrow> nat" where
  "parseInt s = foldl (\<lambda>a d. 10 * a + (d - 48)) 0 s"

subsection \<open>A backtracking matcher\<close>

text \<open>
  The regular expressions of the source use character classes, sequence, ordered
  alternatives, greedy and lazy stars, capture groups and the two anchors. \<open>rx\<close> is
  their syntax; \<open>m\<close> is the backtracking matcher of the ECMAScript specification in
  continuation-passing style: \<open>m r k i s c\<close> matches \<open>r\<close> at index \<open>i\<close> of the input, where
  \<open>s\<close> is the input from \<open>i\<close> on and \<open>c\<close> the captures so far, and calls \<open>k\<close> on the index
  and the input that are left; it tries the alternatives in the order of the
  specification and returns the first success. A capture is the pair of the indices at
  which its group started and ended. An iteration of a star has to consume input, so a
  star on an input of length \<open>l\<close> iterates at most \<open>l\<close> times, and \<open>l\<close> is the fuel of
  \<open>starG\<close> and \<open>starL\<close>.
\<close>

type_synonym caps = "nat \<rightharpoonup> nat \<times> nat"
type_synonym cont = "nat \<Rightarrow> jsstring \<Rightarrow> caps \<Rightarrow> (caps \<times> nat \<times> jsstring) option"

datatype rx =
    Sym "nat \<Rightarrow> bool"
  | Eps
  | Seq rx rx
  | Alt rx rx
  | Star rx
  | StarLazy rx
  | Group nat rx
  | Bol
  | Eol

primrec starG :: "nat \<Rightarrow> (cont \<Rightarrow> cont) \<Rightarrow> cont \<Rightarrow> cont" where
  "starG 0 body k = k"
| "starG (Suc f) body k = (\<lambda>i s c.
     case body (\<lambda>i' s' c'. if i < i' then starG f body k i' s' c' else None) i s c of
       Some y \<Rightarrow> Some y
     | None \<Rightarrow> k i s c)"

primrec starL :: "nat \<Rightarrow> (cont \<Rightarrow> cont) \<Rightarrow> cont \<Rightarrow> cont" where
  "starL 0 body k = k"
| "starL (Suc f) body k = (\<lambda>i s c.
     case k i s c of
       Some y \<Rightarrow> Some y
     | None \<Rightarrow> body (\<lambda>i' s' c'. if i < i' then starL f body k i' s' c' else None) i s c)"

primrec m :: "rx \<Rightarrow> cont \<Rightarrow> cont" where
  "m (Sym p) k =
     (\<lambda>i s c. case s of [] \<Rightarrow> None | x # xs \<Rightarrow> if p x then k (i + 1) xs c else None)"
| "m Eps k = k"
| "m (Seq a b) k = m a (m b k)"
| "m (Alt a b) k = (\<lambda>i s c. case m a k i s c of Some y \<Rightarrow> Some y | None \<Rightarrow> m b k i s c)"
| "m (Star a) k = (\<lambda>i s c. starG (length s) (m a) k i s c)"
| "m (StarLazy a) k = (\<lambda>i s c. starL (length s) (m a) k i s c)"
| "m (Group g a) k = (\<lambda>i s c. m a (\<lambda>i' s' c'. k i' s' (c'(g \<mapsto> (i, i')))) i s c)"
| "m Bol k = (\<lambda>i s c. if i = 0 then k i s c else None)"
| "m Eol k = (\<lambda>i s c. if s = [] then k i s c else None)"

text \<open>A match at index \<open>i\<close>: the captures (group 0 is the whole match), and the index and
  the input after the match.\<close>

definition matchAt :: "rx \<Rightarrow> nat \<Rightarrow> jsstring \<Rightarrow> (caps \<times> nat \<times> jsstring) option" where
  "matchAt r i s = m (Group 0 r) (\<lambda>i' s' c'. Some (c', i', s')) i s Map.empty"

text \<open>The leftmost match from index \<open>i\<close> on: the start positions are tried from left to
  right.\<close>

fun search :: "rx \<Rightarrow> nat \<Rightarrow> jsstring \<Rightarrow> (caps \<times> nat \<times> jsstring) option" where
  "search r i [] = matchAt r i []"
| "search r i (x # xs) =
     (case matchAt r i (x # xs) of Some y \<Rightarrow> Some y | None \<Rightarrow> search r (i + 1) xs)"

text \<open>\<open>str.match(re)\<close> for a regular expression without the \<open>g\<close> flag.\<close>

definition rx_match :: "rx \<Rightarrow> jsstring \<Rightarrow> caps option" where
  "rx_match r s = map_option fst (search r 0 s)"

text \<open>
  \<open>[...str.matchAll(re)]\<close> for a regular expression with the \<open>g\<close> flag: the next search
  starts where the last match ended, one code unit further after an empty match.
\<close>

primrec matchAllN :: "nat \<Rightarrow> rx \<Rightarrow> nat \<Rightarrow> jsstring \<Rightarrow> caps list" where
  "matchAllN 0 r i s = []"
| "matchAllN (Suc f) r i s =
     (case search r i s of
        None \<Rightarrow> []
      | Some (c, i', rest) \<Rightarrow>
          c # (if c 0 = Some (i', i')
               then (if rest = [] then [] else matchAllN f r (i' + 1) (tl rest))
               else matchAllN f r i' rest))"

definition matchAll :: "rx \<Rightarrow> jsstring \<Rightarrow> caps list" where
  "matchAll r s = matchAllN (Suc (length s)) r 0 s"

text \<open>
  The text of a capture group of a match on \<open>s\<close>. A group that did not take part reads
  as empty.
\<close>

definition grp :: "jsstring \<Rightarrow> caps \<Rightarrow> nat \<Rightarrow> jsstring" where
  "grp s c g = (case c g of Some (b, e) \<Rightarrow> take (e - b) (drop b s) | None \<Rightarrow> [])"

subsection \<open>Building blocks\<close>

text \<open>One character of the pattern under the \<open>i\<close> flag.\<close>

definition ci :: "char \<Rightarrow> rx" where
  "ci ch = Sym (\<lambda>x. lowerUnit x = lowerUnit (of_char ch))"

fun lit_ci :: "string \<Rightarrow> rx" where
  "lit_ci [] = Eps"
| "lit_ci [ch] = ci ch"
| "lit_ci (ch # chs) = Seq (ci ch) (lit_ci chs)"

text \<open>A literal sequence of code units, matched exactly.\<close>

fun lit :: "jsstring \<Rightarrow> rx" where
  "lit [] = Eps"
| "lit [u] = Sym (\<lambda>x. x = u)"
| "lit (u # us) = Seq (Sym (\<lambda>x. x = u)) (lit us)"

fun seqs :: "rx list \<Rightarrow> rx" where
  "seqs [] = Eps"
| "seqs [r] = r"
| "seqs (r # rs) = Seq r (seqs rs)"

definition anyUnit :: rx where
  "anyUnit = Sym (\<lambda>x. True)"

definition notUnit :: "char \<Rightarrow> rx" where
  "notUnit ch = Sym (\<lambda>x. x \<noteq> of_char ch)"

definition digit :: rx where
  "digit = Sym isDigit"

definition space :: rx where
  "space = Sym isSpace"

definition Opt :: "rx \<Rightarrow> rx" where
  "Opt r = Alt r Eps"

definition Plus :: "rx \<Rightarrow> rx" where
  "Plus r = Seq r (Star r)"

section \<open>The hours table parser\<close>

subsection \<open>The regular expressions of \<open>parseRowHours\<close> and \<open>parseTimeToDecimal\<close>\<close>

text \<open>\<open>/<tr[^>]*>([\s\S]*?)<\/tr>/gi\<close>\<close>

definition rowRx :: rx where
  "rowRx = seqs [lit_ci ''<tr'', Star (notUnit CHR ''>''), lit_ci ''>'',
                 Group 1 (StarLazy anyUnit), lit_ci ''</tr>'']"

text \<open>\<open>/<td[^>]*>([\s\S]*?)<\/td>/i\<close>, and with \<open>gi\<close> in \<open>matchAll\<close>\<close>

definition tdRx :: rx where
  "tdRx = seqs [lit_ci ''<td'', Star (notUnit CHR ''>''), lit_ci ''>'',
                Group 1 (StarLazy anyUnit), lit_ci ''</td>'']"

text \<open>\<open>/<span[^>]*class="s-lc-timetxt[^"]*"[^>]*>([\s\S]*?)<\/span>/i\<close>\<close>

definition timetxtRx :: rx where
  \<open>timetxtRx = seqs [lit_ci ''<span'', Star (notUnit CHR ''>''),
                     lit_ci ''class="s-lc-timetxt'', Star (notUnit CHR ''"''), lit_ci ''"'',
                     Star (notUnit CHR ''>''), lit_ci ''>'',
                     Group 1 (StarLazy anyUnit), lit_ci ''</span>'']\<close>

text \<open>\<open>/<span[^>]*class="s-lc-time[^"]*"[^>]*>([\s\S]*?)<\/span>/i\<close>\<close>

definition timeSpanRx :: rx where
  \<open>timeSpanRx = seqs [lit_ci ''<span'', Star (notUnit CHR ''>''),
                      lit_ci ''class="s-lc-time'', Star (notUnit CHR ''"''), lit_ci ''"'',
                      Star (notUnit CHR ''>''), lit_ci ''>'',
                      Group 1 (StarLazy anyUnit), lit_ci ''</span>'']\<close>

text \<open>\<open>/\(([^)]+)\)/\<close>\<close>

definition noteRx :: rx where
  "noteRx = seqs [lit_ci ''('', Group 1 (Plus (notUnit CHR '')'')), lit_ci '')'']"

text \<open>\<open>\d{1,2}(?::\d{2})?\s*(?:am|pm)\<close>, one end of a range.\<close>

definition timeTokRx :: rx where
  "timeTokRx = seqs [digit, Opt digit, Opt (seqs [lit_ci '':'', digit, digit]), Star space,
                     Alt (lit_ci ''am'') (lit_ci ''pm'')]"

text \<open>
  \<open>/(\d{1,2}(?::\d{2})?\s*(?:am|pm))\s*(?:&ndash;|D|-)\s*(\d{1,2}(?::\d{2})?\s*(?:am|pm))/i\<close>.
  The second alternative \<open>D\<close> of the separator differs between the two server files:
  \<open>server/index.js\<close> has the three code units 8218, 196, 236 there (an en dash whose
  UTF-8 bytes were read in another encoding), the second server file has the en dash
  itself.
\<close>

definition rangeRx :: "jsstring \<Rightarrow> rx" where
  "rangeRx dash = seqs [Group 1 timeTokRx, Star space,
                        Alt (lit_ci ''&ndash;'') (Alt (lit dash) (lit_ci ''-'')),
                        Star space, Group 2 timeTokRx]"

definition dash_index_js :: jsstring where
  "dash_index_js = [8218, 196, 236]"

definition dash_second_file :: jsstring where
  "dash_second_file = [8211]"

text \<open>\<open>/(\d{1,2})(?::(\d{2}))?\s*(am|pm)/i\<close>\<close>

definition timeRx :: rx where
  "timeRx = seqs [Group 1 (Seq digit (Opt digit)),
                  Opt (Seq (lit_ci '':'') (Group 2 (Seq digit digit))), Star space,
                  Group 3 (Alt (lit_ci ''am'') (lit_ci ''pm''))]"

text \<open>\<open>.replace(/(am|pm)/gi, m => m.toUpperCase())\<close>\<close>

fun upperAmPm :: "jsstring \<Rightarrow> jsstring" where
  "upperAmPm (x # y # zs) =
     (if (lowerUnit x = 97 \<or> lowerUnit x = 112) \<and> lowerUnit y = 109
      then upperUnit x # upperUnit y # upperAmPm zs
      else x # upperAmPm (y # zs))"
| "upperAmPm xs = xs"

subsection \<open>\<open>parseTimeToDecimal\<close>\<close>

text \<open>
  Decimal hours are JavaScript numbers in the source; the model computes
  \<open>hour + minute / 60\<close> in the rationals. \<open>None\<close> is \<open>null\<close>.
\<close>

definition parseTimeToDecimal :: "jsstring \<Rightarrow> rat option" where
  "parseTimeToDecimal timeStr =
     (if timeStr = [] \<or> toLowerCase timeStr = js ''closed'' then None
      else case rx_match timeRx timeStr of
        None \<Rightarrow> None
      | Some c \<Rightarrow>
          (let hour = parseInt (grp timeStr c 1);
               minute = (if c 2 = None then 0 else parseInt (grp timeStr c 2));
               period = toLowerCase (grp timeStr c 3);
               hour = (if period = js ''pm'' \<and> hour \<noteq> 12 then hour + 12 else hour);
               hour = (if period = js ''am'' \<and> hour = 12 then 0 else hour)
           in Some (of_nat hour + of_nat minute / 60)))"

subsection \<open>\<open>parseRowHours\<close>\<close>

text \<open>
  The entry of one day. A field that the source's object does not have reads as
  \<open>False\<close> (\<open>closed\<close>) or \<open>None\<close> (\<open>note\<close>), as does a \<open>null\<close>.
\<close>

record DayHours =
  "open" :: "rat option"
  close :: "rat option"
  closed :: bool
  openStr :: jsstring
  closeStr :: jsstring
  "note" :: "jsstring option"

text \<open>
  The body of the loop over the cells of the row, which gives the entry of one cell, in
  two parts: \<open>parseTimeSpan\<close> is the inner \<open>else\<close> branch (the cell is not closed and has
  no \<open>24 Hours\<close> text), \<open>parseCell\<close> the whole body.
\<close>

definition parseTimeSpan :: "jsstring \<Rightarrow> jsstring \<Rightarrow> DayHours" where
  "parseTimeSpan dash cellContent =
     (case rx_match timeSpanRx cellContent of
        Some timeSpanMatch \<Rightarrow>
          (let timeContent = grp cellContent timeSpanMatch 1 in
           case rx_match (rangeRx dash) timeContent of
             Some timeMatch \<Rightarrow>
               (let openStr = upperAmPm (trim (grp timeContent timeMatch 1));
                    closeStr = upperAmPm (trim (grp timeContent timeMatch 2));
                    openTime = parseTimeToDecimal openStr;
                    closeTime = parseTimeToDecimal closeStr;
                    closeTime = (if closeTime = Some 0 then Some 24 else closeTime)
                in \<lparr>open = openTime, close = closeTime, closed = False,
                    openStr = openStr, closeStr = closeStr, note = None\<rparr>)
           | None \<Rightarrow>
               \<lparr>open = Some 0, close = Some 24, closed = False,
                openStr = js ''24 Hours'', closeStr = [], note = None\<rparr>)
      | None \<Rightarrow>
          \<lparr>open = Some 0, close = Some 24, closed = False, openStr = js ''Unknown'',
           closeStr = [], note = None\<rparr>)"

definition parseCell :: "jsstring \<Rightarrow> jsstring \<Rightarrow> DayHours" where
  "parseCell dash cellContent =
     (if includesStr cellContent (js ''s-lc-closed'') then
        \<lparr>open = None, close = None, closed = True, openStr = js ''Closed'', closeStr = [],
         note = None\<rparr>
      else
        (case rx_match timetxtRx cellContent of
           Some timetxtMatch \<Rightarrow>
             if includesStr (toLowerCase (grp cellContent timetxtMatch 1)) (js ''24 hour'') then
               (let noteText = trim (grp cellContent timetxtMatch 1);
                    noteMatch = rx_match noteRx noteText;
                    note = (case noteMatch of
                              Some nm \<Rightarrow> Some (trim (grp noteText nm 1))
                            | None \<Rightarrow> None)
                in \<lparr>open = Some 0, close = Some 24, closed = False,
                    openStr = js ''24 Hours'', closeStr = [], note = note\<rparr>)
             else parseTimeSpan dash cellContent
         | None \<Rightarrow> parseTimeSpan dash cellContent))"

text \<open>The first row whose first \<open>td\<close> contains \<open>rowName\<close>: the whole match of the row.\<close>

fun findTargetRow :: "jsstring \<Rightarrow> caps list \<Rightarrow> jsstring \<Rightarrow> jsstring option" where
  "findTargetRow html [] rowName = None"
| "findTargetRow html (rowMatch # rest) rowName =
     (let rowContent = grp html rowMatch 1 in
      case rx_match tdRx rowContent of
        Some firstTdMatch \<Rightarrow>
          if includesStr (grp rowContent firstTdMatch 1) rowName then Some (grp html rowMatch 0)
          else findTargetRow html rest rowName
      | None \<Rightarrow> findTargetRow html rest rowName)"

text \<open>
  \<open>parseRowHours(html, rowName, mondayDate)\<close>. A date is the number of its day (days
  since 1 January 1970): the key of the \<open>i\<close>-th cell is the day \<open>mondayDate + (i - 1)\<close>,
  which is what \<open>setDate\<close> followed by \<open>toISOString().split('T')[0]\<close> gives on a server
  whose clock is less than twelve hours from UTC. The result is the object \<open>hours\<close> as
  the list of its entries in the order of insertion, or \<open>None\<close> for \<open>null\<close>.
\<close>

definition parseRowHours ::
  "jsstring \<Rightarrow> jsstring \<Rightarrow> jsstring \<Rightarrow> int \<Rightarrow> (int \<times> DayHours) list option" where
  "parseRowHours dash html rowName mondayDate =
     (case findTargetRow html (matchAll rowRx html) rowName of
        None \<Rightarrow> None
      | Some targetRow \<Rightarrow>
          (let tdMatches = matchAll tdRx targetRow;
               cells = take 7 (tl tdMatches)
           in Some (map (\<lambda>(i, td). (mondayDate + int i, parseCell dash (grp targetRow td 1)))
                      (zip [0 ..< length cells] cells))))"

subsection \<open>An example table\<close>

text \<open>
  A table with a header row, a row of another library and the row \<open>FAES Library\<close>, whose
  cells are marked up as the hours widget does: a time range in a span of class
  \<open>s-lc-time\<close> with the entity \<open>&ndash;\<close>, a closed day in a span of class \<open>s-lc-closed\<close>,
  and a text in a span of class \<open>s-lc-timetxt\<close>.
\<close>

definition ex_table :: jsstring where
  \<open>ex_table = js (''<table><tr><th>Mon</th></tr>'' @
    ''<tr><td class="s-lc-whw-locname">Thompson Library</td><td>x</td></tr>'' @
    ''<tr class="r"><td class="s-lc-whw-locname">FAES Library</td>'' @
    ''<td class="s-lc-whw-today"><span class="s-lc-time">7:30am &ndash; 6:00pm</span></td>'' @
    ''<td><span class="s-lc-closed">Closed</span></td>'' @
    ''<td><span class="s-lc-timetxt">24 Hours (ID req'' @ [CHR 0x27] @ ''d after 12AM)</span></td>'' @
    ''</tr></table>'')\<close>

text \<open>The row of \<open>FAES Library\<close> in \<open>ex_table\<close>, and its three day cells.\<close>

definition ex_row :: jsstring where
  \<open>ex_row = js (''<tr class="r"><td class="s-lc-whw-locname">FAES Library</td>'' @
    ''<td class="s-lc-whw-today"><span class="s-lc-time">7:30am &ndash; 6:00pm</span></td>'' @
    ''<td><span class="s-lc-closed">Closed</span></td>'' @
    ''<td><span class="s-lc-timetxt">24 Hours (ID req'' @ [CHR 0x27] @ ''d after 12AM)</span></td>'' @
    ''</tr>'')\<close>

definition ex_cell_range :: jsstring where
  \<open>ex_cell_range = js ''<span class="s-lc-time">7:30am &ndash; 6:00pm</span>''\<close>

definition ex_cell_closed :: jsstring where
  \<open>ex_cell_closed = js ''<span class="s-lc-closed">Closed</span>''\<close>

definition ex_cell_24 :: jsstring where
  \<open>ex_cell_24 = js ''<span class="s-lc-timetxt">24 Hours (ID req'd after 12AM)</span>''\<close>

text \<open>The same range with the en dash itself (code unit 8211) between the two times.\<close>

definition ex_cell_range_dash :: jsstring where
  \<open>ex_cell_range_dash =
     js ''<span class="s-lc-time">7:30am '' @ [8211] @ js '' 6:00pm</span>''\<close>

text \<open>
  The example table with that cell for the Monday: the text of the cell is
  \<open>7:30am\<close>, a space, the en dash, a space and \<open>6:00pm\<close>.
\<close>

definition ex_table_dash :: jsstring where
  \<open>ex_table_dash = js (''<table><tr><th>Mon</th></tr>'' @
    ''<tr><td class="s-lc-whw-locname">Thompson Library</td><td>x</td></tr>'' @
    ''<tr class="r"><td class="s-lc-whw-locname">FAES Library</td>'' @
    ''<td class="s-lc-whw-today"><span class="s-lc-time">7:30am '') @ [8211] @
    js ('' 6:00pm</span></td>'' @
    ''<td><span class="s-lc-closed">Closed</span></td>'' @
    ''<td><span class="s-lc-timetxt">24 Hours (ID req'' @ [CHR 0x27] @ ''d after 12AM)</span></td>'' @
    ''</tr></table>'')\<close>

definition ex_row_dash :: jsstring where
  \<open>ex_row_dash = js (''<tr class="r"><td class="s-lc-whw-locname">FAES Library</td>'' @
    ''<td class="s-lc-whw-today"><span class="s-lc-time">7:30am '') @ [8211] @
    js ('' 6:00pm</span></td>'' @
    ''<td><span class="s-lc-closed">Closed</span></td>'' @
    ''<td><span class="s-lc-timetxt">24 Hours (ID req'' @ [CHR 0x27] @ ''d after 12AM)</span></td>'' @
    ''</tr>'')\<close>



definition ex_cell_plain :: jsstring where
  "ex_cell_plain = js ''Closed''"

text \<open>
  The decimal hour of a time as the specification words it: \<open>hour + minute / 60\<close>, where
  \<open>pm\<close> and an hour other than 12 adds 12, and \<open>am\<close> and the hour 12 becomes 0.
\<close>

definition spec_decimal :: "nat \<Rightarrow> nat \<Rightarrow> jsstring \<Rightarrow> rat" where
  "spec_decimal hour minute period =
     of_nat (if period = js ''pm'' \<and> hour \<noteq> 12 then hour + 12
             else if period = js ''am'' \<and> hour = 12 then 0
             else hour)
       + of_nat minute / 60"

subsection \<open>The classification of a cell, in the words of the specification\<close>

text \<open>
  The specification classifies a cell by priority: a closed-state marker; else a
  \<open>24 hours\<close> label, with its parenthetical note; else a recognizable range of two
  times, each converted by \<open>spec_decimal\<close>, a close of exactly 0 being read as 24; else
  a fallback. What counts as a marker, a label and a recognizable range is taken from
  the source: the class name and the regular expressions above.
\<close>

definition spec_closed_marker :: "jsstring \<Rightarrow> bool" where
  "spec_closed_marker cell = includesStr cell (js ''s-lc-closed'')"

text \<open>The text of the \<open>24 hours\<close> label of the cell, if it has one.\<close>

definition spec_24_label :: "jsstring \<Rightarrow> jsstring option" where
  "spec_24_label cell =
     (case rx_match timetxtRx cell of
        Some tm \<Rightarrow>
          if includesStr (toLowerCase (grp cell tm 1)) (js ''24 hour'')
          then Some (trim (grp cell tm 1)) else None
      | None \<Rightarrow> None)"

definition spec_note :: "jsstring \<Rightarrow> jsstring option" where
  "spec_note text = map_option (\<lambda>nm. trim (grp text nm 1)) (rx_match noteRx text)"

text \<open>The two times of the range of the cell, if it has one.\<close>

definition spec_range :: "jsstring \<Rightarrow> jsstring \<Rightarrow> (jsstring \<times> jsstring) option" where
  "spec_range dash cell =
     (case rx_match timeSpanRx cell of
        Some sm \<Rightarrow>
          (case rx_match (rangeRx dash) (grp cell sm 1) of
             Some rm \<Rightarrow> Some (upperAmPm (trim (grp (grp cell sm 1) rm 1)),
                               upperAmPm (trim (grp (grp cell sm 1) rm 2)))
           | None \<Rightarrow> None)
      | None \<Rightarrow> None)"

definition spec_time :: "jsstring \<Rightarrow> rat option" where
  "spec_time s =
     (case rx_match timeRx s of
        Some c \<Rightarrow> Some (spec_decimal (parseInt (grp s c 1))
                          (if c 2 = None then 0 else parseInt (grp s c 2))
                          (toLowerCase (grp s c 3)))
      | None \<Rightarrow> None)"


text \<open>The same with the two fallbacks of the source: a cell that has a span of class
  \<open>s-lc-time\<close> without a range in it is labelled \<open>24 Hours\<close>, any other cell \<open>Unknown\<close>.\<close>

definition spec_cell_two_fallbacks :: "jsstring \<Rightarrow> jsstring \<Rightarrow> DayHours" where
  "spec_cell_two_fallbacks dash cell =
     (if spec_closed_marker cell then
        \<lparr>open = None, close = None, closed = True, openStr = js ''Closed'', closeStr = [],
         note = None\<rparr>
      else case spec_24_label cell of
        Some text \<Rightarrow>
          \<lparr>open = Some 0, close = Some 24, closed = False, openStr = js ''24 Hours'',
           closeStr = [], note = spec_note text\<rparr>
      | None \<Rightarrow>
          (case spec_range dash cell of
             Some (opens, closes) \<Rightarrow>
               \<lparr>open = spec_time opens,
                close = (if spec_time closes = Some 0 then Some 24 else spec_time closes),
                closed = False, openStr = opens, closeStr = closes, note = None\<rparr>
           | None \<Rightarrow>
               \<lparr>open = Some 0, close = Some 24, closed = False,
                openStr = (if rx_match timeSpanRx cell = None then js ''Unknown''
                           else js ''24 Hours''),
                closeStr = [], note = None\<rparr>))"

text \<open>The day cells of a row: the contents of its second to eighth \<open>td\<close>.\<close>

definition dayCells :: "jsstring \<Rightarrow> jsstring list" where
  "dayCells row = map (\<lambda>td. grp row td 1) (take 7 (tl (matchAll tdRx row)))"

text \<open>The schedule of a located row: one entry for each of its day cells, from Monday
  on, whatever the cells hold.\<close>

definition spec_schedule ::
  "(jsstring \<Rightarrow> DayHours) \<Rightarrow> jsstring \<Rightarrow> int \<Rightarrow> (int \<times> DayHours) list" where
  "spec_schedule classify row mondayDate =
     map (\<lambda>(i, cell). (mondayDate + int i, classify cell))
       (zip [0 ..< length (dayCells row)] (dayCells row))"

section \<open>The slots of the rendered booking page\<close>

text \<open>
  \<open>scrapeLibCal\<close> runs a function in the rendered page (\<open>page.evaluate\<close>) that reads the
  elements of class \<open>fc-timeline-event\<close>. Of such an element the function reads the
  attributes \<open>title\<close> and \<open>aria-label\<close> (\<open>None\<close> when the attribute is absent) and the
  class name.
\<close>

record slot_element =
  title :: "jsstring option"
  ariaLabel :: "jsstring option"
  className :: jsstring

record slot =
  time :: jsstring
  available :: bool

text \<open>An entry of \<open>roomData\<close>.\<close>

record room_acc =
  name :: jsstring
  slots :: "slot list"
  seenTimes :: "jsstring list"

definition isWord :: "nat \<Rightarrow> bool" where
  "isWord x = (isDigit x \<or> (65 \<le> x \<and> x \<le> 90) \<or> (97 \<le> x \<and> x \<le> 122) \<or> x = 95)"

text \<open>The dot of a regular expression: any code unit but a line terminator.\<close>

definition dot :: rx where
  "dot = Sym (\<lambda>x. x \<notin> {10, 13, 8232, 8233})"

text \<open>\<open>[ap]m\<close> under the \<open>i\<close> flag.\<close>

definition apm :: rx where
  "apm = Seq (Alt (ci CHR ''a'') (ci CHR ''p'')) (ci CHR ''m'')"

text \<open>\<open>/^(\d{1,2}:\d{2}[ap]m)\s+\w+,\s+(.+?\d{4})\s+-\s+([^-]+)\s+-\s+(.+)$/i\<close>\<close>

definition titleRx :: rx where
  "titleRx = seqs [Bol,
     Group 1 (seqs [digit, Opt digit, lit_ci '':'', digit, digit, apm]),
     Plus space, Plus (Sym isWord), lit_ci '','', Plus space,
     Group 2 (seqs [dot, StarLazy dot, digit, digit, digit, digit]),
     Plus space, lit_ci ''-'', Plus space,
     Group 3 (Plus (notUnit CHR ''-'')),
     Plus space, lit_ci ''-'', Plus space,
     Group 4 (Plus dot), Eol]"

text \<open>
  What the body of the \<open>forEach\<close> computes for one element before it touches
  \<open>roomData\<close>: nothing when the title does not match or is for another date, else the
  trimmed room name, the time and \<open>isAvailable\<close>. \<open>targetDateString\<close> is the target date
  as \<open>Month day, year\<close>.
\<close>

definition slotObservation ::
  "jsstring \<Rightarrow> slot_element \<Rightarrow> (jsstring \<times> jsstring \<times> bool) option" where
  "slotObservation targetDateString el =
     (let t = (case title el of
                 Some s \<Rightarrow> if s \<noteq> [] then s
                           else (case ariaLabel el of Some l \<Rightarrow> l | None \<Rightarrow> [])
               | None \<Rightarrow> (case ariaLabel el of Some l \<Rightarrow> l | None \<Rightarrow> []))
      in case rx_match titleRx t of
        None \<Rightarrow> None
      | Some mt \<Rightarrow>
          (let time = grp t mt 1; dateStr = grp t mt 2; roomName = grp t mt 3;
               statusText = grp t mt 4;
               trimmedRoom = trim roomName
           in if \<not> includesStr dateStr targetDateString then None
              else
                (let classList = className el;
                     hasAvailClass = includesStr classList (js ''s-lc-eq-avail'');
                     hasUnavailClass = (includesStr classList (js ''s-lc-eq-unavail'')
                                        \<or> includesStr classList (js ''unavailable''));
                     titleSaysAvailable = (toLowerCase (trim statusText) = js ''available'');
                     isAvailable = (hasAvailClass \<or> (titleSaysAvailable \<and> \<not> hasUnavailClass))
                 in Some (trimmedRoom, time, isAvailable))))"

text \<open>
  \<open>roomData\<close> is a plain object used as a dictionary: here the list of its own
  entries in the order of their insertion, with the room name as key. A plain object
  also inherits the properties of \<open>Object.prototype\<close>, whose names are these; the value
  of each is a function or an object, which is truthy and has no property
  \<open>seenTimes\<close>.
\<close>

type_synonym roomData = "(jsstring \<times> room_acc) list"

definition objectPrototypeNames :: "jsstring list" where
  "objectPrototypeNames =
     map js [''constructor'', ''__defineGetter__'', ''__defineSetter__'', ''hasOwnProperty'',
             ''__lookupGetter__'', ''__lookupSetter__'', ''isPrototypeOf'',
             ''propertyIsEnumerable'', ''toString'', ''valueOf'', ''__proto__'',
             ''toLocaleString'']"

text \<open>\<open>const existingSlot = slots.find(s => s.time === time);
  if (existingSlot) existingSlot.available = true;\<close>\<close>

fun markAvailable :: "jsstring \<Rightarrow> slot list \<Rightarrow> slot list" where
  "markAvailable t [] = []"
| "markAvailable t (s # ss) =
     (if time s = t then s\<lparr>available := True\<rparr> # ss else s # markAvailable t ss)"

definition updateRoom :: "jsstring \<Rightarrow> (room_acc \<Rightarrow> room_acc) \<Rightarrow> roomData \<Rightarrow> roomData" where
  "updateRoom r f rd = map (\<lambda>(k, v). if k = r then (k, f v) else (k, v)) rd"

text \<open>
  The rest of the body of the \<open>forEach\<close>. \<open>stepRoom\<close> is what it does to the entry of
  the room: a time not seen before adds a slot, a time seen before is upgraded by an
  available observation and left alone by an unavailable one. \<open>addSlot\<close> creates the
  entry if \<open>roomData[trimmedRoom]\<close> is falsy and updates it. When the room name is the
  name of an inherited property, \<open>roomData[trimmedRoom]\<close> is the inherited value: no
  entry is created, and \<open>roomData[trimmedRoom].seenTimes[time]\<close> reads a property of
  \<open>undefined\<close>, which throws a \<open>TypeError\<close> (\<open>Inl\<close>, with the message abbreviated).
  \<open>seenTimes\<close> is a plain object too, here the list of its keys; its keys are times,
  which start with a digit, so that none is the name of an inherited property.
\<close>

definition stepRoom :: "jsstring \<Rightarrow> bool \<Rightarrow> room_acc \<Rightarrow> room_acc" where
  "stepRoom t isAvailable room =
     (if t \<notin> set (seenTimes room) then
        room\<lparr>seenTimes := seenTimes room @ [t],
             slots := slots room @ [\<lparr>time = t, available = isAvailable\<rparr>]\<rparr>
      else if isAvailable then room\<lparr>slots := markAvailable t (slots room)\<rparr>
      else room)"

definition addSlot ::
  "roomData \<Rightarrow> jsstring \<times> jsstring \<times> bool \<Rightarrow> string + roomData" where
  "addSlot rd obs =
     (case obs of (trimmedRoom, t, isAvailable) \<Rightarrow>
        (case map_of rd trimmedRoom of
           Some room \<Rightarrow> Inr (updateRoom trimmedRoom (stepRoom t isAvailable) rd)
         | None \<Rightarrow>
             if trimmedRoom \<in> set objectPrototypeNames
             then Inl ''Cannot read properties of undefined''
             else Inr (updateRoom trimmedRoom (stepRoom t isAvailable)
                         (rd @ [(trimmedRoom,
                                 \<lparr>name = trimmedRoom, slots = [], seenTimes = []\<rparr>)]))))"

text \<open>The \<open>forEach\<close> over the observations: it stops at the first that throws.\<close>

fun forEachSlot ::
  "roomData \<Rightarrow> (jsstring \<times> jsstring \<times> bool) list \<Rightarrow> string + roomData" where
  "forEachSlot rd [] = Inr rd"
| "forEachSlot rd (obs # rest) =
     (case addSlot rd obs of
        Inl err \<Rightarrow> Inl err
      | Inr rd' \<Rightarrow> forEachSlot rd' rest)"

text \<open>
  \<open>Object.values\<close>: the values of the keys that are array indices (canonical decimal
  numbers below \<open>2^32 - 1\<close>) come first, by ascending number, then the others in the
  order of insertion.
\<close>

definition isArrayIndex :: "jsstring \<Rightarrow> bool" where
  "isArrayIndex s = (s \<noteq> [] \<and> list_all isDigit s \<and> (s = [48] \<or> hd s \<noteq> 48)
                      \<and> parseInt s < 2 ^ 32 - 1)"

definition objectValues :: "(jsstring \<times> 'a) list \<Rightarrow> 'a list" where
  "objectValues kvs =
     map snd (sort_key (\<lambda>kv. parseInt (fst kv)) (filter (\<lambda>kv. isArrayIndex (fst kv)) kvs)
              @ filter (\<lambda>kv. \<not> isArrayIndex (fst kv)) kvs)"

text \<open>\<open>/^(\d{1,2}):(\d{2})([ap]m)$/i\<close> and the \<open>parseTime\<close> of the sort: minutes since
  midnight, \<open>0\<close> for a time that does not match.\<close>

definition sortTimeRx :: rx where
  "sortTimeRx = seqs [Bol, Group 1 (Seq digit (Opt digit)), lit_ci '':'',
                      Group 2 (Seq digit digit), Group 3 apm, Eol]"

definition parseTime :: "jsstring \<Rightarrow> nat" where
  "parseTime t =
     (case rx_match sortTimeRx t of
        None \<Rightarrow> 0
      | Some mt \<Rightarrow>
          (let h = parseInt (grp t mt 1);
               mins = parseInt (grp t mt 2);
               h = (if toLowerCase (grp t mt 3) = js ''pm'' \<and> h \<noteq> 12 then h + 12 else h);
               h = (if toLowerCase (grp t mt 3) = js ''am'' \<and> h = 12 then 0 else h)
           in h * 60 + mins))"

text \<open>A room as the function returns it. \<open>Array.prototype.sort\<close> is stable, as is
  \<open>sort_key\<close>.\<close>

record scraped_room =
  roomName :: jsstring
  roomSlots :: "slot list"

text \<open>The observations of the elements of the page, in document order: one for each
  element that the \<open>forEach\<close> does not skip.\<close>

definition observations ::
  "jsstring \<Rightarrow> slot_element list \<Rightarrow> (jsstring \<times> jsstring \<times> bool) list" where
  "observations targetDateString els =
     List.map_filter (slotObservation targetDateString) els"

text \<open>The function passed to \<open>page.evaluate\<close>: the rooms, or \<open>Inl\<close> of the message of the
  error that it throws.\<close>

definition evaluateSlots ::
  "jsstring \<Rightarrow> slot_element list \<Rightarrow> string + scraped_room list" where
  "evaluateSlots targetDateString els =
     (case forEachSlot [] (observations targetDateString els) of
        Inl err \<Rightarrow> Inl err
      | Inr roomData \<Rightarrow>
          Inr (map (\<lambda>room. \<lparr>roomName = name room,
                          roomSlots = sort_key (\<lambda>s. parseTime (time s)) (slots room)\<rparr>)
                 (objectValues roomData)))"

subsection \<open>Two observations of one slot\<close>

definition ex_target :: jsstring where
  "ex_target = js ''January 21, 2026''"

definition ex_el_unavailable :: slot_element where
  "ex_el_unavailable =
     \<lparr>title = Some (js ''1:30pm Wednesday, January 21, 2026 - 360H - Unavailable/Padding''),
      ariaLabel = None,
      className = js ''fc-timeline-event s-lc-eq-unavail''\<rparr>"

definition ex_el_available :: slot_element where
  "ex_el_available =
     \<lparr>title = Some (js ''1:30pm Wednesday, January 21, 2026 - 360H - Available''),
      ariaLabel = None,
      className = js ''fc-timeline-event s-lc-eq-avail''\<rparr>"

text \<open>The same two elements for a room that the page names \<open>constructor\<close>.\<close>

definition ex_el_constructor_unavailable :: slot_element where
  "ex_el_constructor_unavailable =
     \<lparr>title =
        Some (js ''1:30pm Wednesday, January 21, 2026 - constructor - Unavailable/Padding''),
      ariaLabel = None,
      className = js ''fc-timeline-event s-lc-eq-unavail''\<rparr>"

definition ex_el_constructor_available :: slot_element where
  "ex_el_constructor_available =
     \<lparr>title = Some (js ''1:30pm Wednesday, January 21, 2026 - constructor - Available''),
      ariaLabel = None,
      className = js ''fc-timeline-event s-lc-eq-avail''\<rparr>"

subsection \<open>Invariants of \<open>roomData\<close>\<close>

text \<open>
  The entry of room \<open>k\<close> after the observations \<open>ob\<close> (time and availability) of that
  room: its slots are those of \<open>seenTimes\<close>, in the same order and without repetition;
  the times are the observed ones; and a slot is available iff some observation of its
  time was.
\<close>

definition roomInv :: "jsstring \<Rightarrow> (jsstring \<times> bool) set \<Rightarrow> room_acc \<Rightarrow> bool" where
  "roomInv k ob room =
     (name room = k \<and> map time (slots room) = seenTimes room \<and> distinct (seenTimes room)
      \<and> set (seenTimes room) = fst ` ob
      \<and> (\<forall>s \<in> set (slots room). available s \<longleftrightarrow> (time s, True) \<in> ob))"

text \<open>\<open>roomData\<close> after the observations \<open>obs\<close>.\<close>

definition roomDataInv :: "(jsstring \<times> jsstring \<times> bool) list \<Rightarrow> roomData \<Rightarrow> bool" where
  "roomDataInv obs rd =
     (distinct (map fst rd)
      \<and> (\<forall>k. case map_of rd k of
                None \<Rightarrow> \<forall>t a. (k, t, a) \<notin> set obs
              | Some room \<Rightarrow> roomInv k {(t, a). (k, t, a) \<in> set obs} room))"

section \<open>The hours cache of \<open>fetchLibCalHours\<close>\<close>

text \<open>
  A date is the number of its day, counted from 1 January 1970, a Thursday. The source
  works on date strings and on \<open>Date\<close> objects set to noon local time, so that its
  arithmetic on days (\<open>getDay\<close>, \<open>setDate\<close>) is arithmetic on day numbers.
\<close>

text \<open>\<open>Date.prototype.getDay\<close>: 0 is Sunday.\<close>

definition getDay :: "int \<Rightarrow> int" where
  "getDay d = (d + 4) mod 7"

definition getMondayOfWeek :: "int \<Rightarrow> int" where
  "getMondayOfWeek dateStr =
     (let day = getDay dateStr;
          diff = (if day = 0 then - 6 else 1 - day)
      in dateStr + diff)"

record hours_config =
  lid :: nat
  buildingRowName :: jsstring
  reservationRowName :: jsstring

definition LIBCAL_HOURS_CONFIG :: "string \<rightharpoonup> hours_config" where
  "LIBCAL_HOURS_CONFIG =
     [''18th-ave'' \<mapsto> \<lparr>lid = 16287, buildingRowName = js ''18th Avenue Library'',
                        reservationRowName = js ''18th Group Study Rooms''\<rparr>,
      ''thompson'' \<mapsto> \<lparr>lid = 16286, buildingRowName = js ''Thompson Library'',
                        reservationRowName = js ''Thompson Group Study Rooms''\<rparr>,
      ''faes'' \<mapsto> \<lparr>lid = 16298, buildingRowName = js ''FAES Library'',
                    reservationRowName = js ''FAES Library''\<rparr>]"

definition HOURS_CACHE_TTL :: int where
  "HOURS_CACHE_TTL = 60 * 60 * 1000"

text \<open>The hours of one date: \<open>{ building, reservation }\<close>, each an entry or \<open>null\<close>.\<close>

record date_hours =
  building :: "DayHours option"
  reservation :: "DayHours option"

text \<open>The value that \<open>fetchLibCalHours\<close> caches and returns: \<open>result\<close>, keyed by date.\<close>

type_synonym week_hours = "(int \<times> date_hours) list"

record hours_entry =
  h_lastUpdated :: int
  h_data :: week_hours

text \<open>
  \<open>hoursCache\<close> is keyed by the string \<open>libraryId-mondayDate\<close>; the model keeps the two
  parts of the key as a pair. \<open>hoursRequests\<close> is the list of the upstream requests issued
  so far (\<open>fetch(url)\<close>, the URL being determined by the key), in order; a pending call
  is identified by the index of its request.
\<close>

record hours_state =
  hoursCache :: "string \<times> int \<rightharpoonup> hours_entry"
  hoursRequests :: "(string \<times> int) list"

definition hours_init :: hours_state where
  "hours_init = \<lparr>hoursCache = Map.empty, hoursRequests = []\<rparr>"

text \<open>
  \<open>hoursCache[cacheKey]?.data && hoursCache[cacheKey]?.lastUpdated &&
  (Date.now() - hoursCache[cacheKey].lastUpdated < HOURS_CACHE_TTL)\<close>: \<open>data\<close> is an
  object, which is truthy.
\<close>

definition hoursFresh :: "hours_entry option \<Rightarrow> int \<Rightarrow> bool" where
  "hoursFresh entry now =
     (case entry of None \<Rightarrow> False
      | Some e \<Rightarrow> h_lastUpdated e \<noteq> 0 \<and> now - h_lastUpdated e < HOURS_CACHE_TTL)"

datatype hours_outcome =
    HoursReturned "week_hours option"
  | HoursAwaits nat

text \<open>The part of \<open>fetchLibCalHours(libraryId, dateStr)\<close> up to \<open>await fetch(url)\<close>.\<close>

definition fetchLibCalHours ::
  "hours_state \<Rightarrow> string \<Rightarrow> int \<Rightarrow> int \<Rightarrow> hours_state \<times> hours_outcome" where
  "fetchLibCalHours st libraryId dateStr now =
     (case LIBCAL_HOURS_CONFIG libraryId of
        None \<Rightarrow> (st, HoursReturned None)
      | Some config \<Rightarrow>
          (let mondayDate = getMondayOfWeek dateStr;
               cacheKey = (libraryId, mondayDate)
           in if hoursFresh (hoursCache st cacheKey) now
              then (st, HoursReturned (Some (h_data (the (hoursCache st cacheKey)))))
              else (st\<lparr>hoursRequests := hoursRequests st @ [cacheKey]\<rparr>,
                    HoursAwaits (length (hoursRequests st)))))"

text \<open>
  \<open>result\<close>: for every date of either row, in the order of \<open>allDates\<close> (the dates of the
  building row, then those only in the reservation row), its two entries.
\<close>

definition combineHours ::
  "(int \<times> DayHours) list option \<Rightarrow> (int \<times> DayHours) list option \<Rightarrow> week_hours" where
  "combineHours buildingHours reservationHours =
     (let b = (case buildingHours of Some h \<Rightarrow> h | None \<Rightarrow> []);
          r = (case reservationHours of Some h \<Rightarrow> h | None \<Rightarrow> []);
          allDates = rev (remdups (rev (map fst b @ map fst r)))
      in map (\<lambda>date. (date, \<lparr>building = map_of b date, reservation = map_of r date\<rparr>))
           allDates)"

text \<open>
  The rest of \<open>fetchLibCalHours\<close>, for the call that issued request \<open>req\<close>: \<open>Inr html\<close> is
  the text of the response, received at time \<open>now\<close>; \<open>Inl err\<close> is a rejection of
  \<open>fetch\<close> or of \<open>response.text()\<close>, which the \<open>catch\<close> turns into \<open>null\<close>. The key and
  \<open>config\<close> are those of the call (the request records the key, and \<open>config\<close> is looked
  up from it again). \<open>dash\<close> is as in \<open>rangeRx\<close>.
\<close>

definition fetchLibCalHoursResumes ::
  "jsstring \<Rightarrow> hours_state \<Rightarrow> nat \<Rightarrow> string + jsstring \<Rightarrow> int
     \<Rightarrow> hours_state \<times> week_hours option" where
  "fetchLibCalHoursResumes dash st req response now =
     (if req < length (hoursRequests st) then
        (case response of
           Inl err \<Rightarrow> (st, None)
         | Inr html \<Rightarrow>
             (case hoursRequests st ! req of (libraryId, mondayDate) \<Rightarrow>
                (case LIBCAL_HOURS_CONFIG libraryId of
                   None \<Rightarrow> (st, None)
                 | Some config \<Rightarrow>
                     (let buildingHours =
                            parseRowHours dash html (buildingRowName config) mondayDate;
                          reservationHours =
                            parseRowHours dash html (reservationRowName config) mondayDate;
                          result = combineHours buildingHours reservationHours
                      in (st\<lparr>hoursCache := (hoursCache st)((libraryId, mondayDate) \<mapsto>
                               \<lparr>h_lastUpdated = now, h_data = result\<rparr>)\<rparr>,
                          Some result)))))
      else (st, None))"

text \<open>The jobs that touch \<open>hoursCache\<close>, each with the time at which it runs.\<close>

datatype hours_event =
    HoursCall string int int
  | HoursResponse nat "string + jsstring" int

fun hours_step :: "jsstring \<Rightarrow> hours_state \<Rightarrow> hours_event \<Rightarrow> hours_state" where
  "hours_step dash st (HoursCall libraryId dateStr now) =
     fst (fetchLibCalHours st libraryId dateStr now)"
| "hours_step dash st (HoursResponse req response now) =
     fst (fetchLibCalHoursResumes dash st req response now)"

fun eventTime :: "hours_event \<Rightarrow> int" where
  "eventTime (HoursCall libraryId dateStr now) = now"
| "eventTime (HoursResponse req response now) = now"

definition hours_run :: "jsstring \<Rightarrow> hours_state \<Rightarrow> hours_event list \<Rightarrow> hours_state" where
  "hours_run dash st evs = foldl (hours_step dash) st evs"

text \<open>The entry of key \<open>k\<close> was written at \<open>t0\<close> or later.\<close>

definition writtenSince :: "hours_state \<Rightarrow> string \<times> int \<Rightarrow> int \<Rightarrow> bool" where
  "writtenSince st k t0 =
     (case hoursCache st k of None \<Rightarrow> False | Some e \<Rightarrow> t0 \<le> h_lastUpdated e)"

subsection \<open>Example: two calls for the same week before any response\<close>

text \<open>Tuesday 20 January 2026 is day 20473 and Thursday 22 January is day 20475; their
  Monday is day 20472.\<close>

definition ex_hours_first :: "hours_state \<times> hours_outcome" where
  "ex_hours_first = fetchLibCalHours hours_init ''faes'' 20473 1000"

definition ex_hours_second :: "hours_state \<times> hours_outcome" where
  "ex_hours_second = fetchLibCalHours (fst ex_hours_first) ''faes'' 20475 1001"

text \<open>The response to the first request arrives at 1500, with the example table.\<close>

definition ex_hours_cached :: hours_state where
  "ex_hours_cached =
     fst (fetchLibCalHoursResumes dash_index_js (fst ex_hours_second) 0 (Inr ex_table) 1500)"

text \<open>Then the response to the second request, at 1600, and a call for the Friday.\<close>

definition ex_hours_later :: "hours_event list" where
  "ex_hours_later = [HoursResponse 1 (Inr ex_table) 1600, HoursCall ''faes'' 20476 2000]"

section \<open>The source adapters \<open>fetchOsuApi\<close> and \<open>scrapeLibCal\<close>\<close>

text \<open>
  A library configuration, with the fields that the adapters read (\<open>address\<close>, the URLs
  and \<open>locationId\<close> only go into the requests). \<open>roomInfo\<close> maps a room name to its
  capacity and floor; only the library \<open>hsl\<close> has the field.
\<close>

record library =
  lib_id :: string
  lib_name :: string
  libType :: string
  hoursOpen :: rat
  hoursClose :: rat
  roomInfo :: "(jsstring \<rightharpoonup> nat \<times> nat) option"

definition hslRoomInfo :: "jsstring \<rightharpoonup> nat \<times> nat" where
  "hslRoomInfo =
     map_of (map (\<lambda>n. (js n, (5, 3)))
       [''360A'', ''360B'', ''360C'', ''360D'', ''360E'', ''360F'', ''360G'', ''360H''])"

definition LIBRARIES :: "library list" where
  "LIBRARIES =
     [\<lparr>lib_id = ''18th-ave'', lib_name = ''18th Avenue Library'', libType = ''osu-api'',
       hoursOpen = 15 / 2, hoursClose = 47 / 2, roomInfo = None\<rparr>,
      \<lparr>lib_id = ''thompson'', lib_name = ''Thompson Library'', libType = ''osu-api'',
       hoursOpen = 11, hoursClose = 47 / 2, roomInfo = None\<rparr>,
      \<lparr>lib_id = ''faes'', lib_name = ''FAES Library'', libType = ''osu-api'',
       hoursOpen = 8, hoursClose = 18, roomInfo = None\<rparr>,
      \<lparr>lib_id = ''hsl'', lib_name = ''Health Sciences Library'', libType = ''libcal'',
       hoursOpen = 8, hoursClose = 22, roomInfo = Some hslRoomInfo\<rparr>]"

datatype floor_label = LowerLevel | Floor nat

record room = scraped_room +
  capacity :: nat
  room_floor :: floor_label
  amenities :: "string list"

text \<open>
  The \<open>hours\<close> of a result: the \<open>{ open, close }\<close> of the configuration (kept by
  \<open>...library\<close>), the hours of the date from the hours widget, or the fall-back
  \<open>{ building: null, reservation: { open, close } }\<close>.
\<close>

datatype facility_hours =
    LibraryHours rat rat
  | DynamicHours date_hours
  | FallbackHours rat rat

text \<open>\<open>error.message\<close>: a text, or \<open>HTTP\<close> followed by the status.\<close>

datatype fault = Message string | Http nat

text \<open>
  What an adapter returns: the configuration with \<open>rooms\<close>, \<open>scrapedAt\<close> and either
  \<open>isLive: true\<close> or \<open>error\<close>. A field that the object does not have is \<open>False\<close> or \<open>None\<close>.
\<close>

record facility =
  config :: library
  hours :: facility_hours
  rooms :: "room list"
  scrapedAt :: int
  isLive :: bool
  error :: "fault option"

text \<open>\<open>{ ...library, rooms: [], scrapedAt: new Date().toISOString(), error }\<close>\<close>

definition degraded :: "library \<Rightarrow> int \<Rightarrow> fault \<Rightarrow> facility" where
  "degraded library now err =
     \<lparr>config = library, hours = LibraryHours (hoursOpen library) (hoursClose library),
      rooms = [], scrapedAt = now, isLive = False, error = Some err\<rparr>"

subsection \<open>\<open>fetchOsuApi\<close>\<close>

text \<open>
  The outcome of the request to the room API. The body of a response is not valid
  JSON (\<open>response.json()\<close> rejects with the message), or it fails the test on \<open>status\<close>
  and \<open>data.locationAvailableRooms\<close>, or building the rooms from it throws (a record
  without \<open>timeslots\<close> or \<open>roomName\<close>), or it gives rooms. The construction of the rooms
  from the JSON data is not modelled: the rooms are taken as given.
\<close>

datatype api_body =
    NotJson string
  | NotSuccess
  | RoomsThrow string
  | ApiRooms "room list"

datatype api_response =
    FetchRejected string
  | Response nat api_body

text \<open>\<open>response.ok\<close>\<close>

definition ok :: "nat \<Rightarrow> bool" where
  "ok code = (200 \<le> code \<and> code \<le> 299)"

text \<open>
  \<open>fetchOsuApi(library, dateStr)\<close> for a date key that is a string or absent: the
  statements before the \<open>try\<close> build strings and do not throw. \<open>dynamicHours\<close> is the
  result of \<open>getLibraryHoursForDate\<close>, which catches its own failures and gives \<open>null\<close>.
  The result is \<open>Inr\<close> of the value returned, or \<open>Inl\<close> of the message when the call
  rejects.
\<close>

definition fetchOsuApi ::
  "library \<Rightarrow> date_hours option \<Rightarrow> api_response \<Rightarrow> int \<Rightarrow> string + facility" where
  "fetchOsuApi library dynamicHours response now =
     (case response of
        FetchRejected err \<Rightarrow> Inr (degraded library now (Message err))
      | Response code body \<Rightarrow>
          if \<not> ok code then Inr (degraded library now (Http code))
          else (case body of
                  NotJson err \<Rightarrow> Inr (degraded library now (Message err))
                | NotSuccess \<Rightarrow> Inr (degraded library now (Message ''Invalid API response''))
                | RoomsThrow err \<Rightarrow> Inr (degraded library now (Message err))
                | ApiRooms rs \<Rightarrow>
                    Inr \<lparr>config = library,
                         hours = (case dynamicHours of
                                    Some h \<Rightarrow> DynamicHours h
                                  | None \<Rightarrow> FallbackHours (hoursOpen library)
                                               (hoursClose library)),
                         rooms = rs, scrapedAt = now, isLive = True, error = None\<rparr>))"

subsection \<open>\<open>scrapeLibCal\<close>\<close>

text \<open>
  What the browser does in one call of \<open>scrapeLibCal\<close>:
  \<^item> \<open>importPuppeteer\<close>: \<open>import('puppeteer')\<close> succeeds;
  \<^item> \<open>launch\<close>: \<open>puppeteer.default.launch(...)\<close> rejects with the message, or gives a
    browser;
  \<^item> \<open>page\<close>: one of \<open>newPage\<close>, \<open>goto\<close>, \<open>waitForSelector\<close> and \<open>evaluate\<close> rejects with the
    message (a time-out of the selector, a navigation error), or the page has these
    \<open>.fc-timeline-event\<close> elements, on which the function passed to \<open>evaluate\<close> runs
    (\<open>evaluateSlots\<close>; when it throws, \<open>evaluate\<close> rejects);
  \<^item> \<open>close\<close>: \<open>browser.close()\<close> rejects with the message, or succeeds.
\<close>

record browser_run =
  importPuppeteer :: bool
  launch :: "string option"
  page :: "string + slot_element list"
  close :: "string option"

text \<open>\<open>library.roomInfo[room.name]?.capacity || 5\<close>, \<open>library.roomInfo[room.name]?.floor || 3\<close>\<close>

definition addMetadata :: "(jsstring \<rightharpoonup> nat \<times> nat) \<Rightarrow> scraped_room \<Rightarrow> room" where
  "addMetadata info r =
     \<lparr>roomName = roomName r, roomSlots = roomSlots r,
      capacity = (case info (roomName r) of
                    None \<Rightarrow> 5 | Some (c, f) \<Rightarrow> if c = 0 then 5 else c),
      room_floor = Floor (case info (roomName r) of
                       None \<Rightarrow> 3 | Some (c, f) \<Rightarrow> if f = 0 then 3 else f),
      amenities = [''whiteboard'', ''monitor'']\<rparr>"

text \<open>
  \<open>data.map(room => ({ ...room, capacity: ..., floor: ..., amenities: ... }))\<close>: for a
  library without \<open>roomInfo\<close> the look-up throws a \<open>TypeError\<close> at the first room.
\<close>

definition addRoomMetadata :: "library \<Rightarrow> scraped_room list \<Rightarrow> string + room list" where
  "addRoomMetadata library rs =
     (case roomInfo library of
        Some info \<Rightarrow> Inr (map (addMetadata info) rs)
      | None \<Rightarrow> if rs = [] then Inr []
                else Inl ''Cannot read properties of undefined'')"

text \<open>
  \<open>scrapeLibCal(library, dateStr)\<close>; \<open>targetDateString\<close> is the date key as the page
  titles write it. The \<open>import\<close> has a \<open>try\<close> of its own; the \<open>launch\<close> is in no \<open>try\<close>
  block; the work on the page is in a \<open>try\<close> whose \<open>catch\<close> returns the degraded value
  and whose \<open>finally\<close> awaits \<open>browser.close()\<close>, a rejection of which replaces the value
  returned.
\<close>

definition scrapeLibCal ::
  "library \<Rightarrow> jsstring \<Rightarrow> browser_run \<Rightarrow> int \<Rightarrow> string + facility" where
  "scrapeLibCal library targetDateString w now =
     (if \<not> importPuppeteer w then
        Inr (degraded library now (Message ''Puppeteer not installed''))
      else
        (case launch w of
           Some err \<Rightarrow> Inl err
         | None \<Rightarrow>
             (let result =
                    (case page w of
                       Inr els \<Rightarrow>
                         (case evaluateSlots targetDateString els of
                            Inr scraped \<Rightarrow>
                              (case addRoomMetadata library scraped of
                                 Inr rs \<Rightarrow>
                                   \<lparr>config = library,
                                    hours = LibraryHours (hoursOpen library)
                                              (hoursClose library),
                                    rooms = rs, scrapedAt = now, isLive = True,
                                    error = None\<rparr>
                               | Inl err \<Rightarrow> degraded library now (Message err))
                          | Inl err \<Rightarrow> degraded library now (Message err))
                     | Inl err \<Rightarrow> degraded library now (Message err))
              in case close w of
                   Some err \<Rightarrow> Inl err
                 | None \<Rightarrow> Inr result)))"

subsection \<open>The population\<close>

text \<open>
  \<open>Promise.all\<close>: the list of the values, or the rejection of an element (the first of
  the list, where several reject).
\<close>

fun promiseAll :: "(string + 'a) list \<Rightarrow> string + 'a list" where
  "promiseAll [] = Inr []"
| "promiseAll (Inl err # ps) = Inl err"
| "promiseAll (Inr v # ps) =
     (case promiseAll ps of Inl err \<Rightarrow> Inl err | Inr vs \<Rightarrow> Inr (v # vs))"

text \<open>
  What the sources do during one population: the outcome of the API request and of
  the hours query for each library, and the run of the browser.
\<close>

record upstream =
  api :: "string \<Rightarrow> api_response"
  dynamicHours :: "string \<Rightarrow> date_hours option"
  browser :: browser_run

datatype snapshot_item = Fetched facility | Unfetched library

text \<open>The function mapped over \<open>LIBRARIES\<close> in \<open>getAllLibraryData\<close>.\<close>

definition fetchLibrary ::
  "upstream \<Rightarrow> jsstring \<Rightarrow> int \<Rightarrow> library \<Rightarrow> string + snapshot_item" where
  "fetchLibrary u targetDateString now library =
     (if libType library = ''osu-api'' then
        map_sum id Fetched
          (fetchOsuApi library (dynamicHours u (lib_id library)) (api u (lib_id library)) now)
      else if libType library = ''libcal'' then
        map_sum id Fetched (scrapeLibCal library targetDateString (browser u) now)
      else Inr (Unfetched library))"

text \<open>\<open>await Promise.all(LIBRARIES.map(...))\<close>: the outcome of the population.\<close>

definition populationResults :: "upstream \<Rightarrow> jsstring \<Rightarrow> int \<Rightarrow> string + snapshot_item list" where
  "populationResults u targetDateString now =
     promiseAll (map (fetchLibrary u targetDateString now) LIBRARIES)"

subsection \<open>Example: the browser cannot be launched\<close>

text \<open>
  The three API libraries answer with no rooms; \<open>puppeteer\<close> is installed, and the launch
  rejects (no browser at \<open>PUPPETEER_EXECUTABLE_PATH\<close>).
\<close>

definition ex_hsl :: library where
  "ex_hsl = LIBRARIES ! 3"

definition ex_launch_fails :: browser_run where
  "ex_launch_fails =
     \<lparr>importPuppeteer = True, launch = Some ''Failed to launch the browser process'',
      page = Inr [], close = None\<rparr>"

definition ex_upstream :: upstream where
  "ex_upstream =
     \<lparr>api = (\<lambda>l. Response 200 (ApiRooms [])), dynamicHours = (\<lambda>l. None),
      browser = ex_launch_fails\<rparr>"

text \<open>The same, with a page that times out instead: the failure that the \<open>catch\<close> covers.\<close>

definition ex_page_fails :: browser_run where
  "ex_page_fails =
     \<lparr>importPuppeteer = True, launch = None,
      page = Inl ''Waiting for selector failed'', close = None\<rparr>"

text \<open>A run of the browser on a page that shows one slot of a room named
  \<open>constructor\<close>, once unavailable and once available.\<close>

definition ex_page_constructor :: browser_run where
  "ex_page_constructor =
     \<lparr>importPuppeteer = True, launch = None,
      page = Inr [ex_el_constructor_unavailable, ex_el_constructor_available],
      close = None\<rparr>"

section \<open>Invariants of the cache\<close>

lemma inv_init: "inv init_state"
  by (simp add: inv_def init_state_def)

lemma invD1:
  "inv st \<Longrightarrow> inFlight st k = Some p \<Longrightarrow>
     p < length (populations st) \<and> pkey (populations st ! p) = k
       \<and> \<not> initiatorDone (populations st ! p)"
  unfolding inv_def by blast

lemma invD2:
  "inv st \<Longrightarrow> p < length (populations st) \<Longrightarrow> \<not> initiatorDone (populations st ! p) \<Longrightarrow>
     inFlight st (pkey (populations st ! p)) = Some p"
  unfolding inv_def by blast

lemma invD3:
  "inv st \<Longrightarrow> p < length (populations st) \<Longrightarrow> status (populations st ! p) = Pending \<Longrightarrow>
     \<not> initiatorDone (populations st ! p)"
  unfolding inv_def by blast

lemma inv_start:
  assumes "inv st" and "inFlight st k = None"
  shows "inv (st\<lparr>inFlight := (inFlight st)(k \<mapsto> length (populations st)),
                populations := populations st @
                  [\<lparr>pkey = k, startedAt = s, status = Pending, initiatorDone = False\<rparr>]\<rparr>)"
proof -
  have other: "\<And>p. p < length (populations st) \<Longrightarrow> \<not> initiatorDone (populations st ! p) \<Longrightarrow>
              pkey (populations st ! p) \<noteq> k"
    using invD2[OF assms(1)] assms(2) by fastforce
  show ?thesis
    unfolding inv_def
    using invD1[OF assms(1)] invD2[OF assms(1)] invD3[OF assms(1)] other
    by (auto simp: nth_append less_Suc_eq split: if_splits)
qed

lemma inv_call: "inv st \<Longrightarrow> inv (fst (getAllLibraryData ttl st dateStr force now started))"
  by (simp add: getAllLibraryData_def Let_def inv_start split: option.splits)

lemma inv_settles: "inv st \<Longrightarrow> inv (populationSettles st p outcome t)"
  unfolding inv_def populationSettles_def Let_def
  by (auto simp: nth_list_update split: sum.splits)

lemma inv_resumes: "inv st \<Longrightarrow> inv (initiatorResumes st p)"
proof (cases "p < length (populations st) \<and> status (populations st ! p) \<noteq> Pending
         \<and> \<not> initiatorDone (populations st ! p)")
  case False
  assume "inv st"
  with False show ?thesis unfolding initiatorResumes_def by (simp only: if_False)
next
  case True
  assume i: "inv st"
  have u: "\<And>q. q < length (populations st) \<Longrightarrow> q \<noteq> p \<Longrightarrow>
     pkey (populations st ! q) = pkey (populations st ! p) \<Longrightarrow>
     initiatorDone (populations st ! q)"
    using invD2[OF i] True by (metis option.inject)
  show ?thesis
    unfolding inv_def initiatorResumes_def
    using True invD1[OF i] invD2[OF i] invD3[OF i] u
    by (auto simp: nth_list_update split: if_splits)
qed

lemma inv_step: "inv st \<Longrightarrow> inv (step ttl st e)"
  by (cases e) (simp_all add: inv_call inv_settles inv_resumes, simp add: inv_def)

lemma inv_run: "inv st \<Longrightarrow> inv (run ttl st es)"
  by (induction es arbitrary: st) (simp_all add: inv_step)

lemma inv_reachable: "inv (run ttl init_state es)"
  by (rule inv_run[OF inv_init])

lemma running_unique:
  assumes "inv st" "running st k p" "running st k q"
  shows "p = q"
  using assms unfolding inv_def running_def by (metis option.inject)

lemma running_inFlight:
  assumes "inv st" "running st k p"
  shows "inFlight st k = Some p"
  using assms unfolding inv_def running_def by metis

section \<open>Properties of the per-date cache\<close>

lemmas model_simps = getAllLibraryData_def populationSettles_def initiatorResumes_def
  init_state_def cacheKey_def isFresh_def Let_def CACHE_TTL_def resolvesTo_def
  waiterResult_def initiatorResult_def startedFor_def running_def

lemma run_append: "run ttl st (xs @ ys) = run ttl (run ttl st xs) ys"
  by (induction xs arbitrary: st) simp_all

subsection \<open>The example runs, evaluated\<close>

lemma ex_in_flight_state:
  "run CACHE_TTL init_state ex_in_flight =
     \<lparr>dataCache = Map.empty, inFlight = [''2026-01-20'' \<mapsto> 0],
      populations = [\<lparr>pkey = ''2026-01-20'', startedAt = 1000, status = Pending,
         initiatorDone = False\<rparr>]\<rparr>"
  by (simp add: ex_in_flight_def ex_key_def model_simps)

lemma ex_fresh_state:
  "run CACHE_TTL init_state ex_fresh =
     \<lparr>dataCache = [''2026-01-20'' \<mapsto>
         \<lparr>lastUpdated = 4000, data = ''snapshot 1'', lastFetchDurationMs = 3000\<rparr>],
      inFlight = Map.empty,
      populations = [\<lparr>pkey = ''2026-01-20'', startedAt = 1000,
         status = Fulfilled \<lparr>res_data = ''snapshot 1'', fetchedAt = 4000,
            fetchDurationMs = Some 3000, cacheHit = None, deduped = None\<rparr>,
         initiatorDone = True\<rparr>]\<rparr>"
  by (simp add: ex_fresh_def ex_key_def model_simps)

lemma ex_fresh_in_flight_state:
  "run CACHE_TTL init_state ex_fresh_in_flight =
     \<lparr>dataCache = [''2026-01-20'' \<mapsto>
         \<lparr>lastUpdated = 4000, data = ''snapshot 1'', lastFetchDurationMs = 3000\<rparr>],
      inFlight = [''2026-01-20'' \<mapsto> 1],
      populations = [\<lparr>pkey = ''2026-01-20'', startedAt = 1000,
         status = Fulfilled \<lparr>res_data = ''snapshot 1'', fetchedAt = 4000,
            fetchDurationMs = Some 3000, cacheHit = None, deduped = None\<rparr>,
         initiatorDone = True\<rparr>,
         \<lparr>pkey = ''2026-01-20'', startedAt = 5000, status = Pending,
          initiatorDone = False\<rparr>]\<rparr>"
  by (simp add: ex_fresh_in_flight_def run_append ex_fresh_state)
     (simp add: ex_key_def model_simps)

lemma ex_expired_in_flight_state:
  "run CACHE_TTL init_state ex_expired_in_flight =
     \<lparr>dataCache = [''2026-01-20'' \<mapsto>
         \<lparr>lastUpdated = 4000, data = ''snapshot 1'', lastFetchDurationMs = 3000\<rparr>],
      inFlight = [''2026-01-20'' \<mapsto> 1],
      populations = [\<lparr>pkey = ''2026-01-20'', startedAt = 1000,
         status = Fulfilled \<lparr>res_data = ''snapshot 1'', fetchedAt = 4000,
            fetchDurationMs = Some 3000, cacheHit = None, deduped = None\<rparr>,
         initiatorDone = True\<rparr>,
         \<lparr>pkey = ''2026-01-20'', startedAt = 60000, status = Pending,
          initiatorDone = False\<rparr>]\<rparr>"
  by (simp add: ex_expired_in_flight_def run_append ex_fresh_state)
     (simp add: ex_key_def model_simps)

lemma ex_three_calls_run:
  "callAll CACHE_TTL init_state ex_three_calls =
     (\<lparr>dataCache = Map.empty, inFlight = [''2026-01-20'' \<mapsto> 0],
       populations = [\<lparr>pkey = ''2026-01-20'', startedAt = 1000, status = Pending,
         initiatorDone = False\<rparr>]\<rparr>,
      [AwaitsOwn 0, AwaitsInFlight 0, AwaitsInFlight 0 :: string call_outcome])"
  by (simp add: ex_three_calls_def ex_key_def model_simps)

subsection \<open>Callers of one key share one population\<close>

lemma callAll_joins:
  assumes "inFlight st k = Some p" and "\<forall>c \<in> set cs. missOn ttl st k c"
  shows "callAll ttl st cs = (st, replicate (length cs) (AwaitsInFlight p))"
  using assms
proof (induction cs)
  case Nil
  then show ?case by simp
next
  case (Cons c cs)
  obtain d f n s where c: "c = (d, f, n, s)" by (cases c) auto
  from Cons.prems c have m: "cacheKey d = k" "f \<or> \<not> isFresh ttl (dataCache st k) n"
    by (auto simp: missOn_def)
  have "getAllLibraryData ttl st d f n s = (st, AwaitsInFlight p)"
    using m Cons.prems(1) by (auto simp: getAllLibraryData_def Let_def)
  moreover have "callAll ttl st cs = (st, replicate (length cs) (AwaitsInFlight p))"
    using Cons by simp
  ultimately show ?case by (simp add: c)
qed

lemma callAll_starts:
  assumes "inFlight st k = None" and "\<forall>c \<in> set cs. missOn ttl st k c" and "cs \<noteq> []"
  shows "callAll ttl st cs =
     (st\<lparr>inFlight := (inFlight st)(k \<mapsto> length (populations st)),
         populations := populations st @
           [\<lparr>pkey = k, startedAt = snd (snd (snd (hd cs))), status = Pending,
             initiatorDone = False\<rparr>]\<rparr>,
      AwaitsOwn (length (populations st))
        # replicate (length cs - 1) (AwaitsInFlight (length (populations st))))"
proof -
  obtain c cs' where cs: "cs = c # cs'" using assms(3) by (cases cs) auto
  obtain d f n s where c: "c = (d, f, n, s)" by (cases c) auto
  let ?st1 = "st\<lparr>inFlight := (inFlight st)(k \<mapsto> length (populations st)),
         populations := populations st @
           [\<lparr>pkey = k, startedAt = s, status = Pending, initiatorDone = False\<rparr>]\<rparr>"
  from assms(2) cs c have m: "cacheKey d = k" "f \<or> \<not> isFresh ttl (dataCache st k) n"
    by (auto simp: missOn_def)
  have 1: "getAllLibraryData ttl st d f n s = (?st1, AwaitsOwn (length (populations st)))"
    using m assms(1) by (auto simp: getAllLibraryData_def Let_def)
  have "\<forall>c \<in> set cs'. missOn ttl ?st1 k c"
    using assms(2) cs by (simp add: missOn_def)
  moreover have "inFlight ?st1 k = Some (length (populations st))" by simp
  ultimately have 2: "callAll ttl ?st1 cs' =
      (?st1, replicate (length cs') (AwaitsInFlight (length (populations st))))"
    by (rule callAll_joins[rotated])
  show ?thesis using 1 2 by (simp add: cs c)
qed

lemma resolves_shared:
  assumes "out = AwaitsOwn p \<or> out = AwaitsInFlight p" and "p < length (populations st)"
  shows "status (populations st ! p) = Rejected err \<Longrightarrow> resolvesTo st out = Some (Inl err)"
    and "status (populations st ! p) = Fulfilled r \<Longrightarrow>
           \<exists>r'. resolvesTo st out = Some (Inr r') \<and> res_data r' = res_data r
                 \<and> fetchedAt r' = fetchedAt r \<and> fetchDurationMs r' = fetchDurationMs r"
  using assms by (auto simp: resolvesTo_def initiatorResult_def waiterResult_def)

text \<open>
  Claim C1 (single-flight). In every state \<open>st\<close> that the server can reach, at most one
  population is running for each cache key. If \<open>N \<ge> 1\<close> callers then call
  \<open>getAllLibraryData\<close> for the same key \<open>k\<close>, none of them served from the cache (each is
  forced or finds no fresh entry): when no promise is in \<open>inFlight\<close> for \<open>k\<close>, exactly
  one population is started (one promise is added); when one is, none is started. In
  both cases every one of the \<open>N\<close> callers awaits the same promise, the one left in
  \<open>inFlight\<close>, and so, in any later state, all of them get its error if it was rejected,
  and the same \<open>data\<close>, \<open>fetchedAt\<close> and \<open>fetchDurationMs\<close> if it was fulfilled.
\<close>

theorem single_flight:
  fixes evs :: "'d event list"
  assumes "st = run ttl init_state evs"
    and "cs \<noteq> []"
    and "\<forall>c \<in> set cs. missOn ttl st k c"
  shows "(\<forall>k' p q. running st k' p \<and> running st k' q \<longrightarrow> p = q)
    \<and> (inFlight st k = None \<longrightarrow>
          populations (fst (callAll ttl st cs))
            = populations st @
                [\<lparr>pkey = k, startedAt = snd (snd (snd (hd cs))), status = Pending,
                  initiatorDone = False\<rparr>]
          \<and> startedFor (fst (callAll ttl st cs)) k = startedFor st k + 1)
    \<and> (inFlight st k \<noteq> None \<longrightarrow> fst (callAll ttl st cs) = st)
    \<and> inFlight (fst (callAll ttl st cs)) k = Some (sharedPopulation st k)
    \<and> length (snd (callAll ttl st cs)) = length cs
    \<and> (\<forall>out \<in> set (snd (callAll ttl st cs)).
          (out = AwaitsOwn (sharedPopulation st k)
             \<or> out = AwaitsInFlight (sharedPopulation st k))
          \<and> (\<forall>st'. sharedPopulation st k < length (populations st') \<longrightarrow>
                (\<forall>err. status (populations st' ! sharedPopulation st k) = Rejected err
                    \<longrightarrow> resolvesTo st' out = Some (Inl err))
              \<and> (\<forall>r. status (populations st' ! sharedPopulation st k) = Fulfilled r \<longrightarrow>
                    (\<exists>r'. resolvesTo st' out = Some (Inr r') \<and> res_data r' = res_data r
                       \<and> fetchedAt r' = fetchedAt r
                       \<and> fetchDurationMs r' = fetchDurationMs r))))"
proof -
  let ?p = "sharedPopulation st k"
  have i: "inv st" using assms(1) inv_reachable by simp
  have u: "\<forall>k' p q. running st k' p \<and> running st k' q \<longrightarrow> p = q"
    using running_unique[OF i] by blast
  have shape: "(inFlight st k = None \<longrightarrow>
          populations (fst (callAll ttl st cs))
            = populations st @
                [\<lparr>pkey = k, startedAt = snd (snd (snd (hd cs))), status = Pending,
                  initiatorDone = False\<rparr>]
          \<and> startedFor (fst (callAll ttl st cs)) k = startedFor st k + 1)
    \<and> (inFlight st k \<noteq> None \<longrightarrow> fst (callAll ttl st cs) = st)
    \<and> inFlight (fst (callAll ttl st cs)) k = Some ?p
    \<and> length (snd (callAll ttl st cs)) = length cs
    \<and> (\<forall>out \<in> set (snd (callAll ttl st cs)). out = AwaitsOwn ?p \<or> out = AwaitsInFlight ?p)"
  proof (cases "inFlight st k")
    case None
    show ?thesis
      using callAll_starts[OF None assms(3) assms(2)] None assms(2)
      by (cases cs) (auto simp: sharedPopulation_def startedFor_def)
  next
    case (Some p)
    show ?thesis
      using callAll_joins[OF Some assms(3)] Some
      by (auto simp: sharedPopulation_def)
  qed
  have same: "\<forall>out \<in> set (snd (callAll ttl st cs)).
          (out = AwaitsOwn ?p \<or> out = AwaitsInFlight ?p)
          \<and> (\<forall>st'. ?p < length (populations st') \<longrightarrow>
                (\<forall>err. status (populations st' ! ?p) = Rejected err
                    \<longrightarrow> resolvesTo st' out = Some (Inl err))
              \<and> (\<forall>r. status (populations st' ! ?p) = Fulfilled r \<longrightarrow>
                    (\<exists>r'. resolvesTo st' out = Some (Inr r') \<and> res_data r' = res_data r
                       \<and> fetchedAt r' = fetchedAt r
                       \<and> fetchDurationMs r' = fetchDurationMs r)))"
  proof
    fix out assume "out \<in> set (snd (callAll ttl st cs))"
    with shape have o: "out = AwaitsOwn ?p \<or> out = AwaitsInFlight ?p" by blast
    show "(out = AwaitsOwn ?p \<or> out = AwaitsInFlight ?p)
          \<and> (\<forall>st'. ?p < length (populations st') \<longrightarrow>
                (\<forall>err. status (populations st' ! ?p) = Rejected err
                    \<longrightarrow> resolvesTo st' out = Some (Inl err))
              \<and> (\<forall>r. status (populations st' ! ?p) = Fulfilled r \<longrightarrow>
                    (\<exists>r'. resolvesTo st' out = Some (Inr r') \<and> res_data r' = res_data r
                       \<and> fetchedAt r' = fetchedAt r
                       \<and> fetchDurationMs r' = fetchDurationMs r)))"
      using o resolves_shared[OF o] by blast
  qed
  show ?thesis using u shape same by blast
qed

text \<open>
  The three callers of \<open>ex_three_calls\<close> on the empty cache: one population is started,
  the first caller owns it and the other two wait for it; when it is fulfilled at 4000
  all three resolve to its data.
\<close>

theorem single_flight_witness:
  "ex_three_calls \<noteq> []
   \<and> list_all (missOn CACHE_TTL (init_state :: string server_state) ''2026-01-20'')
        ex_three_calls
   \<and> inFlight (init_state :: string server_state) ''2026-01-20'' = None
   \<and> populations (fst (callAll CACHE_TTL (init_state :: string server_state) ex_three_calls))
       = [\<lparr>pkey = ''2026-01-20'', startedAt = 1000, status = Pending, initiatorDone = False\<rparr>]
   \<and> snd (callAll CACHE_TTL (init_state :: string server_state) ex_three_calls)
       = [AwaitsOwn 0, AwaitsInFlight 0, AwaitsInFlight 0]
   \<and> list_all (\<lambda>out. \<exists>r'. resolvesTo (populationSettles
                  (fst (callAll CACHE_TTL init_state ex_three_calls)) 0 (Inr ''snapshot 1'') 4000) out
                = Some (Inr r')
            \<and> res_data r' = ''snapshot 1'' \<and> fetchedAt r' = 4000
            \<and> fetchDurationMs r' = Some 3000)
        (snd (callAll CACHE_TTL (init_state :: string server_state) ex_three_calls))"
proof -
  let ?st = "init_state :: string server_state"
  let ?st' = "populationSettles (fst (callAll CACHE_TTL ?st ex_three_calls)) 0
                (Inr ''snapshot 1'') 4000"
  have r: "?st = run CACHE_TTL init_state []" by simp
  have ne: "ex_three_calls \<noteq> []" by (simp add: ex_three_calls_def)
  have m: "\<forall>c \<in> set ex_three_calls. missOn CACHE_TTL ?st ''2026-01-20'' c"
    by (simp add: ex_three_calls_def missOn_def ex_key_def cacheKey_def isFresh_def
        init_state_def)
  have n: "inFlight ?st ''2026-01-20'' = None" by (simp add: init_state_def)
  have sp: "sharedPopulation ?st ''2026-01-20'' = 0"
    by (simp add: sharedPopulation_def init_state_def)
  have hd: "snd (snd (snd (hd ex_three_calls))) = 1000" by (simp add: ex_three_calls_def)
  have st': "0 < length (populations ?st')
     \<and> status (populations ?st' ! 0) = Fulfilled \<lparr>res_data = ''snapshot 1'', fetchedAt = 4000,
            fetchDurationMs = Some 3000, cacheHit = None, deduped = None\<rparr>"
    by (simp add: ex_three_calls_run populationSettles_def)
  note t = single_flight[OF r ne m, unfolded sp]
  have pops: "populations (fst (callAll CACHE_TTL ?st ex_three_calls))
       = [\<lparr>pkey = ''2026-01-20'', startedAt = 1000, status = Pending, initiatorDone = False\<rparr>]"
    using t n hd by (simp add: init_state_def)
  have outs: "\<forall>out \<in> set (snd (callAll CACHE_TTL ?st ex_three_calls)).
         \<exists>r'. resolvesTo ?st' out = Some (Inr r')
            \<and> res_data r' = ''snapshot 1'' \<and> fetchedAt r' = 4000
            \<and> fetchDurationMs r' = Some 3000"
  proof
    fix out assume o: "out \<in> set (snd (callAll CACHE_TTL ?st ex_three_calls))"
    from t o st' have "\<exists>r'. resolvesTo ?st' out = Some (Inr r')
        \<and> res_data r' = res_data \<lparr>res_data = ''snapshot 1'', fetchedAt = 4000,
            fetchDurationMs = Some 3000, cacheHit = None, deduped = None\<rparr>
        \<and> fetchedAt r' = fetchedAt \<lparr>res_data = ''snapshot 1'', fetchedAt = 4000,
            fetchDurationMs = Some 3000, cacheHit = None, deduped = None\<rparr>
        \<and> fetchDurationMs r' = fetchDurationMs \<lparr>res_data = ''snapshot 1'', fetchedAt = 4000,
            fetchDurationMs = Some 3000, cacheHit = None, deduped = None\<rparr>"
      by blast
    then show "\<exists>r'. resolvesTo ?st' out = Some (Inr r')
            \<and> res_data r' = ''snapshot 1'' \<and> fetchedAt r' = 4000
            \<and> fetchDurationMs r' = Some 3000"
      by simp
  qed
  have c5: "snd (callAll CACHE_TTL ?st ex_three_calls)
       = [AwaitsOwn 0, AwaitsInFlight 0, AwaitsInFlight 0]"
    by (simp add: ex_three_calls_run)
  show ?thesis
    unfolding list_all_iff using ne m n pops outs c5 by blast
qed

subsection \<open>Freshness\<close>

text \<open>
  Claim C3 as the specification states it ends with: a non-forced call after expiry
  triggers a new population. It does not when a population for the key is already in
  flight: in \<open>ex_expired_in_flight\<close> the entry was written at 4000 and a population
  started at 60000 is still running; the non-forced call at 60001 finds the entry
  expired, leaves the state as it is (no population is started) and waits for the
  running one.
\<close>

theorem expired_call_joins_counterexample:
  "dataCache (run CACHE_TTL init_state ex_expired_in_flight) (cacheKey ex_key)
       = Some \<lparr>lastUpdated = 4000, data = ''snapshot 1'', lastFetchDurationMs = 3000\<rparr>
   \<and> \<not> (60001 - 4000 < CACHE_TTL)
   \<and> getAllLibraryData CACHE_TTL (run CACHE_TTL init_state ex_expired_in_flight) ex_key False
         60001 60001
       = (run CACHE_TTL init_state ex_expired_in_flight, AwaitsInFlight 1)
   \<and> startedFor (fst (getAllLibraryData CACHE_TTL (run CACHE_TTL init_state ex_expired_in_flight)
         ex_key False 60001 60001)) (cacheKey ex_key)
       = startedFor (run CACHE_TTL init_state ex_expired_in_flight) (cacheKey ex_key)"
  unfolding ex_expired_in_flight_state
  by (simp add: ex_key_def model_simps)

text \<open>
  Claim C3, amended. An entry is fresh iff its \<open>lastUpdated\<close> is not \<open>0\<close> (the code tests
  its truthiness) and \<open>now - lastUpdated < ttl\<close>. A non-forced call while the entry is
  fresh returns the cached data as a cache hit and leaves the state unchanged, so no
  population is started and no adapter runs. A non-forced call after expiry starts a new
  population, provided none is in flight for the key. The entry that a population
  writes has \<open>lastUpdated\<close> equal to the time at which the population completed, and
  \<open>lastFetchDurationMs\<close> the time it took: if it started at \<open>t0\<close> and took \<open>d\<close>, then
  \<open>lastUpdated \<ge> t0 + d\<close>.
\<close>

theorem freshness_semantics:
  "(isFresh ttl (Some e) now \<longleftrightarrow> lastUpdated e \<noteq> 0 \<and> now - lastUpdated e < ttl)
   \<and> (dataCache st (cacheKey dateStr) = Some e \<and> lastUpdated e \<noteq> 0
        \<and> now - lastUpdated e < ttl \<longrightarrow>
       getAllLibraryData ttl st dateStr False now started
         = (st, Returned \<lparr>res_data = data e, fetchedAt = lastUpdated e,
                fetchDurationMs = None, cacheHit = Some True, deduped = None\<rparr>))
   \<and> (dataCache st (cacheKey dateStr) = Some e \<and> \<not> now - lastUpdated e < ttl
        \<and> inFlight st (cacheKey dateStr) = None \<longrightarrow>
       snd (getAllLibraryData ttl st dateStr False now started)
         = AwaitsOwn (length (populations st))
       \<and> running (fst (getAllLibraryData ttl st dateStr False now started))
           (cacheKey dateStr) (length (populations st))
       \<and> startedFor (fst (getAllLibraryData ttl st dateStr False now started)) (cacheKey dateStr)
           = startedFor st (cacheKey dateStr) + 1)
   \<and> (p < length (populations st) \<and> status (populations st ! p) = Pending \<longrightarrow>
       dataCache (populationSettles st p (Inr results) finishedAt) (pkey (populations st ! p))
         = Some \<lparr>lastUpdated = finishedAt, data = results,
                 lastFetchDurationMs = finishedAt - startedAt (populations st ! p)\<rparr>
       \<and> (\<forall>d. finishedAt = startedAt (populations st ! p) + d \<longrightarrow>
            lastUpdated (the (dataCache (populationSettles st p (Inr results) finishedAt)
                (pkey (populations st ! p)))) \<ge> startedAt (populations st ! p) + d))"
  by (auto simp: isFresh_def getAllLibraryData_def Let_def populationSettles_def
      startedFor_def running_def)

text \<open>
  In \<open>ex_fresh\<close> the entry was written at 4000 and nothing is in flight: with a TTL of
  50000 the call at 53999 is a cache hit and the call at 54000 starts population 1. The
  population started at 60000 in \<open>ex_expired_in_flight\<close>, completing at 63000, writes an
  entry with \<open>lastUpdated = 63000\<close>.
\<close>

theorem freshness_semantics_witness:
  "dataCache (run CACHE_TTL init_state ex_fresh) (cacheKey ex_key)
       = Some \<lparr>lastUpdated = 4000, data = ''snapshot 1'', lastFetchDurationMs = 3000\<rparr>
   \<and> inFlight (run CACHE_TTL init_state ex_fresh) (cacheKey ex_key) = None
   \<and> getAllLibraryData CACHE_TTL (run CACHE_TTL init_state ex_fresh) ex_key False 53999 53999
       = (run CACHE_TTL init_state ex_fresh,
          Returned \<lparr>res_data = ''snapshot 1'', fetchedAt = 4000,
                fetchDurationMs = None, cacheHit = Some True, deduped = None\<rparr>)
   \<and> snd (getAllLibraryData CACHE_TTL (run CACHE_TTL init_state ex_fresh) ex_key False 54000 54000)
       = AwaitsOwn (length (populations (run CACHE_TTL init_state ex_fresh)))
   \<and> dataCache (populationSettles (run CACHE_TTL init_state ex_expired_in_flight) 1
          (Inr ''snapshot 2'') 63000) ''2026-01-20''
       = Some \<lparr>lastUpdated = 63000, data = ''snapshot 2'', lastFetchDurationMs = 3000\<rparr>"
proof -
  let ?e = "\<lparr>lastUpdated = 4000, data = ''snapshot 1'', lastFetchDurationMs = 3000\<rparr>"
  have e: "dataCache (run CACHE_TTL init_state ex_fresh) (cacheKey ex_key) = Some ?e"
    unfolding ex_fresh_state by (simp add: ex_key_def cacheKey_def)
  have n: "inFlight (run CACHE_TTL init_state ex_fresh) (cacheKey ex_key) = None"
    unfolding ex_fresh_state by (simp add: ex_key_def cacheKey_def)
  have a: "lastUpdated ?e \<noteq> 0 \<and> 53999 - lastUpdated ?e < CACHE_TTL"
    by (simp add: CACHE_TTL_def)
  have b: "\<not> 54000 - lastUpdated ?e < CACHE_TTL"
    by (simp add: CACHE_TTL_def)
  have p: "1 < length (populations (run CACHE_TTL init_state ex_expired_in_flight))
     \<and> status (populations (run CACHE_TTL init_state ex_expired_in_flight) ! 1) = Pending"
    "pkey (populations (run CACHE_TTL init_state ex_expired_in_flight) ! 1) = ''2026-01-20''"
    "startedAt (populations (run CACHE_TTL init_state ex_expired_in_flight) ! 1) = 60000"
    unfolding ex_expired_in_flight_state by simp_all
  have 1: "getAllLibraryData CACHE_TTL (run CACHE_TTL init_state ex_fresh) ex_key False 53999 53999
       = (run CACHE_TTL init_state ex_fresh,
          Returned \<lparr>res_data = data ?e, fetchedAt = lastUpdated ?e,
                fetchDurationMs = None, cacheHit = Some True, deduped = None\<rparr>)"
    using freshness_semantics[of CACHE_TTL ?e 53999 "run CACHE_TTL init_state ex_fresh" ex_key]
      e a by blast
  have 2: "snd (getAllLibraryData CACHE_TTL (run CACHE_TTL init_state ex_fresh) ex_key False 54000 54000)
       = AwaitsOwn (length (populations (run CACHE_TTL init_state ex_fresh)))"
    using freshness_semantics[of CACHE_TTL ?e 54000 "run CACHE_TTL init_state ex_fresh" ex_key]
      e b n by blast
  have 3: "dataCache (populationSettles (run CACHE_TTL init_state ex_expired_in_flight) 1
          (Inr ''snapshot 2'') 63000)
          (pkey (populations (run CACHE_TTL init_state ex_expired_in_flight) ! 1))
       = Some \<lparr>lastUpdated = 63000, data = ''snapshot 2'',
           lastFetchDurationMs =
             63000 - startedAt (populations (run CACHE_TTL init_state ex_expired_in_flight) ! 1)\<rparr>"
    using freshness_semantics[of _ _ _ "run CACHE_TTL init_state ex_expired_in_flight" _ _ 1
        "''snapshot 2''" 63000] p(1) by blast
  show ?thesis using e n 1 2 3 unfolding p(2,3) by simp
qed

subsection \<open>Forced calls\<close>

text \<open>
  Claim C4 as the specification states it: a call with \<open>force = true\<close> always triggers a
  new population. It does not when a population for the key is in flight: in
  \<open>ex_fresh_in_flight\<close> the entry is fresh and population 1 is running; the forced call
  at 6000 starts nothing and waits for population 1.
\<close>

theorem force_no_population_counterexample:
  "isFresh CACHE_TTL (dataCache (run CACHE_TTL init_state ex_fresh_in_flight) (cacheKey ex_key)) 6000
   \<and> getAllLibraryData CACHE_TTL (run CACHE_TTL init_state ex_fresh_in_flight) ex_key True 6000 6000
       = (run CACHE_TTL init_state ex_fresh_in_flight, AwaitsInFlight 1)
   \<and> startedFor (fst (getAllLibraryData CACHE_TTL (run CACHE_TTL init_state ex_fresh_in_flight)
         ex_key True 6000 6000)) (cacheKey ex_key)
       = startedFor (run CACHE_TTL init_state ex_fresh_in_flight) (cacheKey ex_key)"
  unfolding ex_fresh_in_flight_state
  by (simp add: ex_key_def model_simps)

text \<open>
  Claim C4, amended. A call with \<open>force = true\<close> starts a new population whenever no
  population for its key is in flight, whatever the cache holds for the key, a fresh
  entry included: the caller owns the new promise, one more population has been started
  for the key, and it is running.
\<close>

theorem force_starts_population:
  assumes "inFlight st (cacheKey dateStr) = None"
  shows "getAllLibraryData ttl st dateStr True now started =
           (st\<lparr>inFlight := (inFlight st)(cacheKey dateStr \<mapsto> length (populations st)),
               populations := populations st @
                 [\<lparr>pkey = cacheKey dateStr, startedAt = started, status = Pending,
                   initiatorDone = False\<rparr>]\<rparr>,
            AwaitsOwn (length (populations st)))
       \<and> startedFor (fst (getAllLibraryData ttl st dateStr True now started)) (cacheKey dateStr)
           = startedFor st (cacheKey dateStr) + 1
       \<and> running (fst (getAllLibraryData ttl st dateStr True now started)) (cacheKey dateStr)
           (length (populations st))"
  using assms by (simp add: getAllLibraryData_def Let_def startedFor_def running_def)

text \<open>In \<open>ex_fresh\<close> the entry is fresh at 5000 and nothing is in flight.\<close>

theorem force_starts_population_witness:
  "inFlight (run CACHE_TTL init_state ex_fresh) (cacheKey ex_key) = None
   \<and> isFresh CACHE_TTL (dataCache (run CACHE_TTL init_state ex_fresh) (cacheKey ex_key)) 5000
   \<and> snd (getAllLibraryData CACHE_TTL (run CACHE_TTL init_state ex_fresh) ex_key True 5000 5000)
       = AwaitsOwn (length (populations (run CACHE_TTL init_state ex_fresh)))
   \<and> startedFor (fst (getAllLibraryData CACHE_TTL (run CACHE_TTL init_state ex_fresh)
          ex_key True 5000 5000)) (cacheKey ex_key)
       = startedFor (run CACHE_TTL init_state ex_fresh) (cacheKey ex_key) + 1
   \<and> running (fst (getAllLibraryData CACHE_TTL (run CACHE_TTL init_state ex_fresh)
          ex_key True 5000 5000))
        (cacheKey ex_key) (length (populations (run CACHE_TTL init_state ex_fresh)))"
proof -
  have h: "inFlight (run CACHE_TTL init_state ex_fresh) (cacheKey ex_key) = None"
    unfolding ex_fresh_state by (simp add: ex_key_def cacheKey_def)
  have f: "isFresh CACHE_TTL (dataCache (run CACHE_TTL init_state ex_fresh) (cacheKey ex_key)) 5000"
    unfolding ex_fresh_state by (simp add: ex_key_def cacheKey_def isFresh_def CACHE_TTL_def)
  have t: "snd (getAllLibraryData CACHE_TTL (run CACHE_TTL init_state ex_fresh) ex_key True 5000 5000)
       = AwaitsOwn (length (populations (run CACHE_TTL init_state ex_fresh)))"
    using force_starts_population[OF h, of CACHE_TTL 5000 5000] by simp
  show ?thesis
    using force_starts_population[OF h, of CACHE_TTL 5000 5000] h f t by blast
qed

text \<open>
  Claim C10 (force defers to a population in flight). In every reachable state in which
  \<open>inFlight\<close> has a promise \<open>p\<close> for the key, a call with \<open>force = true\<close> leaves the state
  as it is, so that no second population is started, and awaits \<open>p\<close>; when \<open>p\<close> is then
  fulfilled, the caller returns its result with \<open>cacheHit = false\<close> and
  \<open>deduped = true\<close>.
\<close>

theorem force_defers_to_in_flight:
  fixes evs :: "'d event list"
  assumes "st = run ttl init_state evs"
    and "inFlight st (cacheKey dateStr) = Some p"
  shows "getAllLibraryData ttl st dateStr True now started = (st, AwaitsInFlight p)
       \<and> (status (populations st ! p) = Pending \<longrightarrow>
           resolvesTo (populationSettles st p (Inr results) t) (AwaitsInFlight p)
             = Some (Inr \<lparr>res_data = results, fetchedAt = t,
                  fetchDurationMs = Some (t - startedAt (populations st ! p)),
                  cacheHit = Some False, deduped = Some True\<rparr>))"
proof -
  have "inv st" using assms(1) inv_reachable by simp
  from invD1[OF this assms(2)] have p: "p < length (populations st)" by simp
  have 1: "getAllLibraryData ttl st dateStr True now started = (st, AwaitsInFlight p)"
    using assms(2) by (simp add: getAllLibraryData_def)
  have 2: "resolvesTo (populationSettles st p (Inr results) t) (AwaitsInFlight p)
             = Some (Inr \<lparr>res_data = results, fetchedAt = t,
                  fetchDurationMs = Some (t - startedAt (populations st ! p)),
                  cacheHit = Some False, deduped = Some True\<rparr>)"
    if "status (populations st ! p) = Pending"
    using that p by (simp add: populationSettles_def resolvesTo_def waiterResult_def Let_def)
  show ?thesis using 1 2 by blast
qed

theorem force_defers_to_in_flight_witness:
  "inFlight (run CACHE_TTL init_state ex_in_flight) (cacheKey ex_key) = Some 0
   \<and> getAllLibraryData CACHE_TTL (run CACHE_TTL init_state ex_in_flight) ex_key True 1200 1200
           = (run CACHE_TTL init_state ex_in_flight, AwaitsInFlight 0)
   \<and> status (populations (run CACHE_TTL init_state ex_in_flight) ! 0) = Pending
   \<and> resolvesTo (populationSettles (run CACHE_TTL init_state ex_in_flight) 0
          (Inr ''snapshot 1'') 4000) (AwaitsInFlight 0)
       = Some (Inr \<lparr>res_data = ''snapshot 1'', fetchedAt = 4000, fetchDurationMs = Some 3000,
                    cacheHit = Some False, deduped = Some True\<rparr>)"
proof -
  have h: "inFlight (run CACHE_TTL init_state ex_in_flight) (cacheKey ex_key) = Some 0"
    unfolding ex_in_flight_state by (simp add: ex_key_def cacheKey_def)
  have s: "status (populations (run CACHE_TTL init_state ex_in_flight) ! 0) = Pending"
    unfolding ex_in_flight_state by simp
  have a: "startedAt (populations (run CACHE_TTL init_state ex_in_flight) ! 0) = 1000"
    unfolding ex_in_flight_state by simp
  show ?thesis
    using force_defers_to_in_flight[OF refl h, of 1200 1200 "''snapshot 1''" 4000] h s a
    by simp
qed

subsection \<open>A population that fails\<close>

text \<open>
  Claim C5 (population failure atomicity). Let a population \<open>p\<close> be running for the key
  in a reachable state, and let its promise be rejected with \<open>err\<close>. Then \<open>dataCache\<close> is
  what it was (no entry is written, and the entry the key had is unchanged), the
  initiator and every caller awaiting \<open>p\<close> get \<open>err\<close>, and once the initiator has run its
  \<open>finally\<close> block the key is no longer in \<open>inFlight\<close>, so that a later call that is
  forced or finds no fresh entry starts a new population.
\<close>

theorem population_failure:
  fixes evs :: "'d event list"
  assumes "st = run ttl init_state evs" and "running st (cacheKey dateStr) p"
  shows "dataCache (populationSettles st p (Inl err) t) = dataCache st
    \<and> resolvesTo (populationSettles st p (Inl err) t) (AwaitsOwn p) = Some (Inl err)
    \<and> resolvesTo (populationSettles st p (Inl err) t) (AwaitsInFlight p) = Some (Inl err)
    \<and> dataCache (initiatorResumes (populationSettles st p (Inl err) t) p) = dataCache st
    \<and> inFlight (initiatorResumes (populationSettles st p (Inl err) t) p) (cacheKey dateStr) = None
    \<and> (force \<or> \<not> isFresh ttl (dataCache st (cacheKey dateStr)) now \<longrightarrow>
         snd (getAllLibraryData ttl (initiatorResumes (populationSettles st p (Inl err) t) p)
                dateStr force now started) = AwaitsOwn (length (populations st))
         \<and> running (fst (getAllLibraryData ttl
                (initiatorResumes (populationSettles st p (Inl err) t) p)
                dateStr force now started)) (cacheKey dateStr) (length (populations st)))"
proof -
  let ?k = "cacheKey dateStr"
  let ?st1 = "populationSettles st p (Inl err) t"
  let ?st2 = "initiatorResumes ?st1 p"
  have i: "inv st" using assms(1) inv_reachable by simp
  from assms(2) have p: "p < length (populations st)" "pkey (populations st ! p) = ?k"
    "status (populations st ! p) = Pending"
    by (simp_all add: running_def)
  from invD3[OF i p(1) p(3)] have nd: "\<not> initiatorDone (populations st ! p)" .
  have st1: "?st1 = st\<lparr>populations :=
      (populations st)[p := (populations st ! p)\<lparr>status := Rejected err\<rparr>]\<rparr>"
    using p by (simp add: populationSettles_def)
  have c1: "dataCache ?st1 = dataCache st" by (simp add: st1)
  have r1: "resolvesTo ?st1 (AwaitsOwn p) = Some (Inl err)"
    "resolvesTo ?st1 (AwaitsInFlight p) = Some (Inl err)"
    using p(1) by (simp_all add: st1 resolvesTo_def initiatorResult_def waiterResult_def)
  have st2: "?st2 = st\<lparr>inFlight := (inFlight st)(?k := None),
      populations := (populations st)[p := (populations st ! p)\<lparr>status := Rejected err,
         initiatorDone := True\<rparr>]\<rparr>"
    using p nd by (simp add: st1 initiatorResumes_def)
  have c2: "dataCache ?st2 = dataCache st" and f2: "inFlight ?st2 ?k = None"
    and l2: "length (populations ?st2) = length (populations st)"
    by (simp_all add: st2)
  have later: "snd (getAllLibraryData ttl ?st2 dateStr force now started)
                  = AwaitsOwn (length (populations st))
         \<and> running (fst (getAllLibraryData ttl ?st2 dateStr force now started)) ?k
              (length (populations st))"
    if "force \<or> \<not> isFresh ttl (dataCache st ?k) now"
    using that c2 f2 l2 by (auto simp: getAllLibraryData_def Let_def running_def nth_append)
  show ?thesis using c1 r1 c2 f2 later by blast
qed

text \<open>
  In \<open>ex_expired_in_flight\<close> population 1 is running and the key has the entry written
  at 4000. The population fails at 61000: the entry is still there, both kinds of caller
  get the error, and the forced call at 62000 starts population 2.
\<close>

theorem population_failure_witness:
  "running (run CACHE_TTL init_state ex_expired_in_flight) (cacheKey ex_key) 1
   \<and> dataCache (initiatorResumes (populationSettles (run CACHE_TTL init_state ex_expired_in_flight)
         1 (Inl ''Failed to launch the browser process'') 61000) 1) ''2026-01-20''
       = Some \<lparr>lastUpdated = 4000, data = ''snapshot 1'', lastFetchDurationMs = 3000\<rparr>
   \<and> resolvesTo (populationSettles (run CACHE_TTL init_state ex_expired_in_flight)
         1 (Inl ''Failed to launch the browser process'') 61000) (AwaitsOwn 1)
       = Some (Inl ''Failed to launch the browser process'')
   \<and> resolvesTo (populationSettles (run CACHE_TTL init_state ex_expired_in_flight)
         1 (Inl ''Failed to launch the browser process'') 61000) (AwaitsInFlight 1)
       = Some (Inl ''Failed to launch the browser process'')
   \<and> inFlight (initiatorResumes (populationSettles (run CACHE_TTL init_state ex_expired_in_flight)
         1 (Inl ''Failed to launch the browser process'') 61000) 1) (cacheKey ex_key) = None
   \<and> snd (getAllLibraryData CACHE_TTL
         (initiatorResumes (populationSettles (run CACHE_TTL init_state ex_expired_in_flight)
            1 (Inl ''Failed to launch the browser process'') 61000) 1) ex_key True 62000 62000)
       = AwaitsOwn (length (populations (run CACHE_TTL init_state ex_expired_in_flight)))"
proof -
  have r: "running (run CACHE_TTL init_state ex_expired_in_flight) (cacheKey ex_key) 1"
    unfolding ex_expired_in_flight_state by (simp add: running_def ex_key_def cacheKey_def)
  have d: "dataCache (run CACHE_TTL init_state ex_expired_in_flight) ''2026-01-20''
       = Some \<lparr>lastUpdated = 4000, data = ''snapshot 1'', lastFetchDurationMs = 3000\<rparr>"
    unfolding ex_expired_in_flight_state by simp
  show ?thesis
    using population_failure[OF refl r, of "''Failed to launch the browser process''" 61000
        True 62000 62000] r d
    by simp
qed


section \<open>Evaluating the matcher\<close>

text \<open>
  The equations of \<open>m\<close> with all their arguments, so that the simplifier unfolds a
  regular expression only where the match gets to it; for a star on one character
  class, which is the only kind that the regular expressions of the source have, the
  fuel is eliminated.
\<close>

lemma m_Sym_Cons: "m (Sym p) k i (x # xs) c = (if p x then k (i + 1) xs c else None)"
  and m_Sym_Nil: "m (Sym p) k i [] c = None"
  and m_Eps: "m Eps k i s c = k i s c"
  and m_Seq: "m (Seq a b) k i s c = m a (m b k) i s c"
  and m_Alt: "m (Alt a b) k i s c =
     (case m a k i s c of Some y \<Rightarrow> Some y | None \<Rightarrow> m b k i s c)"
  and m_Group: "m (Group g a) k i s c = m a (\<lambda>i' s' c'. k i' s' (c'(g \<mapsto> (i, i')))) i s c"
  and m_Bol: "m Bol k i s c = (if i = 0 then k i s c else None)"
  and m_Eol: "m Eol k i s c = (if s = [] then k i s c else None)"
  by simp_all

lemma starL_unit:
  assumes B: "\<And>K i x xs c. B K i (x # xs) c = (if p x then K (i + 1) xs c else None)"
    "\<And>K i c. B K i [] c = None"
  shows "length s \<le> f \<Longrightarrow> starL f B k i s c =
     (case k i s c of Some y \<Rightarrow> Some y
      | None \<Rightarrow> (case s of [] \<Rightarrow> None
                  | x # xs \<Rightarrow> if p x then starL (length xs) B k (i + 1) xs c else None))"
proof (induction s arbitrary: f i)
  case Nil
  then show ?case by (cases f) (auto simp: B split: option.splits)
next
  case (Cons x xs)
  then obtain f' where f: "f = Suc f'" by (cases f) auto
  with Cons.prems have le: "length xs \<le> f'" by simp
  have eq: "starL f' B k (Suc i) xs c = starL (length xs) B k (Suc i) xs c"
    using Cons.IH[OF le, of "Suc i"] Cons.IH[of "length xs" "Suc i"] by simp
  show ?case by (simp add: f B eq split: option.splits)
qed

lemma m_StarLazy_Sym:
  "m (StarLazy (Sym p)) k i s c =
     (case k i s c of Some y \<Rightarrow> Some y
      | None \<Rightarrow> (case s of [] \<Rightarrow> None
                  | x # xs \<Rightarrow> if p x then m (StarLazy (Sym p)) k (i + 1) xs c else None))"
  using starL_unit[of "m (Sym p)" p s "length s" k i c]
  by (simp split: option.splits list.splits)

lemma starG_unit:
  assumes B: "\<And>K i x xs c. B K i (x # xs) c = (if p x then K (i + 1) xs c else None)"
    "\<And>K i c. B K i [] c = None"
  shows "length s \<le> f \<Longrightarrow> starG f B k i s c =
     (case s of [] \<Rightarrow> k i [] c
      | x # xs \<Rightarrow> if p x then
           (case starG (length xs) B k (i + 1) xs c of
              Some y \<Rightarrow> Some y | None \<Rightarrow> k i (x # xs) c)
         else k i (x # xs) c)"
proof (induction s arbitrary: f i)
  case Nil
  then show ?case by (cases f) (auto simp: B split: option.splits)
next
  case (Cons x xs)
  then obtain f' where f: "f = Suc f'" by (cases f) auto
  with Cons.prems have le: "length xs \<le> f'" by simp
  have eq: "starG f' B k (Suc i) xs c = starG (length xs) B k (Suc i) xs c"
    using Cons.IH[OF le, of "Suc i"] Cons.IH[of "length xs" "Suc i"] by simp
  show ?case by (simp add: f B eq split: option.splits)
qed

lemma m_Star_Sym:
  "m (Star (Sym p)) k i s c =
     (case s of [] \<Rightarrow> k i [] c
      | x # xs \<Rightarrow> if p x then
           (case m (Star (Sym p)) k (i + 1) xs c of
              Some y \<Rightarrow> Some y | None \<Rightarrow> k i (x # xs) c)
         else k i (x # xs) c)"
  using starG_unit[of "m (Sym p)" p s "length s" k i c]
  by (simp split: option.splits list.splits)

lemmas rx_eval = m_Sym_Cons m_Sym_Nil m_Eps m_Seq m_Alt m_Group m_Bol m_Eol
  m_StarLazy_Sym m_Star_Sym matchAt_def rx_match_def grp_def

lemmas rx_defs = ci_def lowerUnit_def upperUnit_def anyUnit_def notUnit_def digit_def
  space_def Opt_def Plus_def isDigit_def isSpace_def

text \<open>
  The rules with which the examples are computed: numerals, the matcher, and the
  functions of the parser. They are used with the simplifier restricted to them.
\<close>

lemmas num_eval = of_char_Char horner_sum_simps of_bool_eq arith_simps rel_simps
  mult_0_right add_0 add_0_right mult_zero_right mult_1_right mult_1
  numeral_plus_one one_plus_numeral one_add_one diff_numeral_simps
  diff_nat_numeral nat_numeral_diff_1 nat_numeral nat_0 nat_one_as_int[symmetric]
  diff_numeral_special
  nat_neg_numeral diff_zero diff_self_eq_0 nat.distinct diff_Suc_1 nat.inject
  of_nat_numeral of_nat_0 div_0

lemmas rx_run = rx_eval search.simps matchAllN.simps matchAll_def
  seqs.simps lit_ci.simps lit.simps rx_defs js_def
  option.case list.case prod.case if_True if_False simp_thms
  option.map list.map fst_conv snd_conv fun_upd_apply
  list.inject list.distinct option.inject option.distinct prod.inject
  length_Cons list.size(3) list.sel
  insert_iff empty_iff
  take_Cons' drop_Cons' take_Nil drop_Nil take_Suc_Cons take_0
  rowRx_def tdRx_def timetxtRx_def timeSpanRx_def noteRx_def timeTokRx_def rangeRx_def
  timeRx_def

lemmas parse_run = findTargetRow.simps parseCell_def parseTimeSpan_def dayCells_def
  parseTimeToDecimal_def includesStr.simps trim_def toLowerCase_def upperAmPm.simps
  parseInt_def Let_def dropWhile.simps rev.simps append.simps foldl.simps


section \<open>Properties of the hours parser\<close>

subsection \<open>The source's cascade against the classification of the specification\<close>

lemma timeRx_needs_digit:
  "matchAt timeRx i [] = None"
  "\<not> isDigit x \<Longrightarrow> matchAt timeRx i (x # xs) = None"
  by (simp_all add: timeRx_def rx_eval digit_def del: m.simps)

lemma search_timeRx_no_digit:
  "\<forall>x \<in> set s. \<not> isDigit x \<Longrightarrow> search timeRx i s = None"
  by (induction s arbitrary: i) (simp_all add: timeRx_needs_digit)

lemma closed_no_digit:
  assumes "toLowerCase s = js ''closed''"
  shows "\<forall>x \<in> set s. \<not> isDigit x"
proof
  fix x assume "x \<in> set s"
  then have "lowerUnit x \<in> set (toLowerCase s)" by (simp add: toLowerCase_def)
  then have "lowerUnit x \<in> set (js ''closed'')" using assms by simp
  then show "\<not> isDigit x"
    by (auto simp: js_def lowerUnit_def isDigit_def split: if_splits)
qed

text \<open>The guard of \<open>parseTimeToDecimal\<close> (an empty string, or \<open>closed\<close> in any case) only
  excludes strings that its regular expression does not match anyway.\<close>

lemma parseTimeToDecimal_spec: "parseTimeToDecimal s = spec_time s"
proof (cases "s = [] \<or> toLowerCase s = js ''closed''")
  case True
  then have "\<forall>x \<in> set s. \<not> isDigit x" using closed_no_digit by auto
  then have "rx_match timeRx s = None" by (simp add: rx_match_def search_timeRx_no_digit)
  with True show ?thesis by (simp add: parseTimeToDecimal_def spec_time_def)
next
  case False
  then show ?thesis
    by (auto simp: parseTimeToDecimal_def spec_time_def spec_decimal_def Let_def js_def
        split: option.splits)
qed

lemma parseCell_spec: "parseCell dash cell = spec_cell_two_fallbacks dash cell"
  by (simp add: parseCell_def parseTimeSpan_def spec_cell_two_fallbacks_def
      spec_closed_marker_def spec_24_label_def spec_note_def spec_range_def
      parseTimeToDecimal_spec Let_def split: option.splits)

lemma map_zip_map:
  "map (\<lambda>(i, c). F i c) (zip ns (map g tds)) = map (\<lambda>(i, td). F i (g td)) (zip ns tds)"
  by (simp add: zip_map2 case_prod_beta)

lemma parseRowHours_spec:
  "parseRowHours dash html rowName mondayDate =
     (case findTargetRow html (matchAll rowRx html) rowName of
        None \<Rightarrow> None
      | Some row \<Rightarrow> Some (spec_schedule (spec_cell_two_fallbacks dash) row mondayDate))"
  unfolding parseRowHours_def spec_schedule_def dayCells_def Let_def map_zip_map
    parseCell_spec length_map
  by (rule refl)

subsection \<open>The example table and cells, computed\<close>


lemma ex_table_row:
  "findTargetRow ex_table (matchAll rowRx ex_table) (js ''FAES Library'') = Some ex_row"
  by (simp only: ex_table_def ex_row_def num_eval rx_run parse_run
      cong: if_weak_cong option.case_cong_weak list.case_cong_weak)

lemma ex_row_cells: "dayCells ex_row = [ex_cell_range, ex_cell_closed, ex_cell_24]"
  by (simp only: dayCells_def ex_row_def ex_cell_range_def ex_cell_closed_def ex_cell_24_def
      num_eval rx_run parse_run
      cong: if_weak_cong option.case_cong_weak list.case_cong_weak)

lemma ex_cell_range_parse:
  "parseCell dash ex_cell_range =
     \<lparr>open = Some (15 / 2), close = Some 18, closed = False, openStr = js ''7:30AM'',
      closeStr = js ''6:00PM'', note = None\<rparr>"
  by (simp only: ex_cell_range_def num_eval rx_run parse_run
      cong: if_weak_cong option.case_cong_weak list.case_cong_weak;
      simp add: rx_run parse_run del: m.simps)

lemma ex_cell_closed_parse:
  "parseCell dash ex_cell_closed =
     \<lparr>open = None, close = None, closed = True, openStr = js ''Closed'', closeStr = [],
      note = None\<rparr>"
  by (simp only: ex_cell_closed_def num_eval rx_run parse_run
      cong: if_weak_cong option.case_cong_weak list.case_cong_weak)

lemma ex_cell_24_parse:
  "parseCell dash ex_cell_24 =
     \<lparr>open = Some 0, close = Some 24, closed = False, openStr = js ''24 Hours'',
      closeStr = [], note = Some (js ''ID req'd after 12AM'')\<rparr>"
  by (simp only: ex_cell_24_def num_eval rx_run parse_run
      cong: if_weak_cong option.case_cong_weak list.case_cong_weak)

text \<open>
  The range written with the en dash itself is parsed by the regular expression of the
  second server file. That of \<open>server/index.js\<close> does not recognize it (its alternative
  for the en dash is three other code units), and the cell gets the fallback of a span
  without a range. Both recognize the entity \<open>&ndash;\<close>.
\<close>

lemma ex_cell_range_dash_second_file:
  "parseCell dash_second_file ex_cell_range_dash =
     \<lparr>open = Some (15 / 2), close = Some 18, closed = False, openStr = js ''7:30AM'',
      closeStr = js ''6:00PM'', note = None\<rparr>"
  by (simp only: ex_cell_range_dash_def dash_second_file_def num_eval rx_run parse_run
      cong: if_weak_cong option.case_cong_weak list.case_cong_weak;
      simp add: rx_run parse_run del: m.simps)

lemma ex_cell_range_dash_index_js:
  "parseCell dash_index_js ex_cell_range_dash =
     \<lparr>open = Some 0, close = Some 24, closed = False, openStr = js ''24 Hours'',
      closeStr = [], note = None\<rparr>"
  by (simp only: ex_cell_range_dash_def dash_index_js_def num_eval rx_run parse_run
      cong: if_weak_cong option.case_cong_weak list.case_cong_weak)




lemma ex_cell_plain_parse:
  "parseCell dash ex_cell_plain =
     \<lparr>open = Some 0, close = Some 24, closed = False, openStr = js ''Unknown'',
      closeStr = [], note = None\<rparr>"
  by (simp only: ex_cell_plain_def num_eval rx_run parse_run
      cong: if_weak_cong option.case_cong_weak list.case_cong_weak)

subsection \<open>The claims\<close>




text \<open>
  The example table whose range is written with the entity \<open>&ndash;\<close>: the parse gives
  open 7.5 and close 18 for the Monday (19 January 2026, day 20472), \<open>closed\<close> for the
  Tuesday, and open 0 and close 24 with the note \<open>ID req'd after 12AM\<close> for the
  Wednesday, with either server file's regular expression for the range (\<open>dash\<close> is
  arbitrary).
\<close>

lemma parse_example:
  "parseRowHours dash ex_table (js ''FAES Library'') 20472 =
     Some [(20472, \<lparr>open = Some (15 / 2), close = Some 18, closed = False,
                     openStr = js ''7:30AM'', closeStr = js ''6:00PM'', note = None\<rparr>),
           (20473, \<lparr>open = None, close = None, closed = True, openStr = js ''Closed'',
                     closeStr = [], note = None\<rparr>),
           (20474, \<lparr>open = Some 0, close = Some 24, closed = False,
                     openStr = js ''24 Hours'', closeStr = [],
                     note = Some (js ''ID req'd after 12AM'')\<rparr>)]"
  by (simp add: parseRowHours_spec ex_table_row spec_schedule_def ex_row_cells
      parseCell_spec[symmetric] ex_cell_range_parse ex_cell_closed_parse ex_cell_24_parse)

subsection \<open>The range written with an en dash\<close>

lemma ex_table_dash_row:
  "findTargetRow ex_table_dash (matchAll rowRx ex_table_dash) (js ''FAES Library'')
     = Some ex_row_dash"
  by (simp only: ex_table_dash_def ex_row_dash_def num_eval rx_run parse_run
      cong: if_weak_cong option.case_cong_weak list.case_cong_weak)

lemma ex_row_dash_cells:
  "dayCells ex_row_dash = [ex_cell_range_dash, ex_cell_closed, ex_cell_24]"
  by (simp only: dayCells_def ex_row_dash_def ex_cell_range_dash_def ex_cell_closed_def
      ex_cell_24_def num_eval rx_run parse_run
      cong: if_weak_cong option.case_cong_weak list.case_cong_weak)

text \<open>
  Claim C8 (concrete results): for a table with the row \<open>FAES Library\<close>, a cell with the
  text \<open>7:30am\<close>, en dash, \<open>6:00pm\<close> yields open 7.5 and close 18 for its date, a cell
  with the text \<open>Closed\<close> yields \<open>closed\<close>, and a cell with the text
  \<open>24 Hours (ID req'd after 12AM)\<close> yields open 0 and close 24 with the note
  \<open>ID req'd after 12AM\<close>. On the example table with these three cells from Monday
  19 January 2026 (day 20472) on, \<open>parseRowHours\<close> of \<open>server/index.js\<close> yields the
  second and the third entry, but for the Monday it yields open 0 and close 24,
  labelled \<open>24 Hours\<close>: the alternative of its regular expression that is meant for the
  en dash holds three other code units. With the regular expression of the second
  server file, which has the en dash there, the Monday is open 7.5 and close 18.
\<close>

theorem en_dash_range_not_parsed:
  "parseRowHours dash_index_js ex_table_dash (js ''FAES Library'') 20472 =
     Some [(20472, \<lparr>open = Some 0, close = Some 24, closed = False,
                     openStr = js ''24 Hours'', closeStr = [], note = None\<rparr>),
           (20473, \<lparr>open = None, close = None, closed = True, openStr = js ''Closed'',
                     closeStr = [], note = None\<rparr>),
           (20474, \<lparr>open = Some 0, close = Some 24, closed = False,
                     openStr = js ''24 Hours'', closeStr = [],
                     note = Some (js ''ID req'd after 12AM'')\<rparr>)]
   \<and> parseRowHours dash_second_file ex_table_dash (js ''FAES Library'') 20472 =
     Some [(20472, \<lparr>open = Some (15 / 2), close = Some 18, closed = False,
                     openStr = js ''7:30AM'', closeStr = js ''6:00PM'', note = None\<rparr>),
           (20473, \<lparr>open = None, close = None, closed = True, openStr = js ''Closed'',
                     closeStr = [], note = None\<rparr>),
           (20474, \<lparr>open = Some 0, close = Some 24, closed = False,
                     openStr = js ''24 Hours'', closeStr = [],
                     note = Some (js ''ID req'd after 12AM'')\<rparr>)]"
  by (simp add: parseRowHours_spec ex_table_dash_row spec_schedule_def ex_row_dash_cells
      parseCell_spec[symmetric] ex_cell_range_dash_index_js ex_cell_range_dash_second_file
      ex_cell_closed_parse ex_cell_24_parse)

section \<open>Properties of the slots of the rendered booking page\<close>

lemma markAvailable_distinct:
  "distinct (map time ss) \<Longrightarrow>
     markAvailable t ss = map (\<lambda>s. if time s = t then s\<lparr>available := True\<rparr> else s) ss"
proof (induction ss)
  case Nil
  then show ?case by simp
next
  case (Cons s ss)
  show ?case
  proof (cases "time s = t")
    case True
    from Cons.prems have "time s \<notin> time ` set ss" by simp
    with True have "\<forall>s' \<in> set ss. time s' \<noteq> t" by (metis image_eqI)
    then have "map (\<lambda>s. if time s = t then s\<lparr>available := True\<rparr> else s) ss = ss"
      by (simp add: map_idI)
    with True show ?thesis by simp
  next
    case False
    with Cons show ?thesis by simp
  qed
qed

lemma map_time_mark:
  "map time (map (\<lambda>s. if time s = t then s\<lparr>available := True\<rparr> else s) ss) = map time ss"
  by (induction ss) simp_all

lemma roomInv_empty: "roomInv k {} \<lparr>name = k, slots = [], seenTimes = []\<rparr>"
  by (simp add: roomInv_def)

lemma roomInv_step:
  assumes "roomInv k ob room"
  shows "roomInv k (insert (t, a) ob) (stepRoom t a room)"
proof -
  from assms have n: "name room = k" and mt: "map time (slots room) = seenTimes room"
    and d: "distinct (seenTimes room)" and st: "set (seenTimes room) = fst ` ob"
    and av: "\<forall>s \<in> set (slots room). available s \<longleftrightarrow> (time s, True) \<in> ob"
    by (simp_all add: roomInv_def)
  have ts: "time ` set (slots room) = set (seenTimes room)"
    using mt by (metis list.set_map)
  show ?thesis
  proof (cases "t \<in> set (seenTimes room)")
    case False
    then have nt: "\<forall>s \<in> set (slots room). time s \<noteq> t" using ts by force
    have "stepRoom t a room = room\<lparr>seenTimes := seenTimes room @ [t],
             slots := slots room @ [\<lparr>time = t, available = a\<rparr>]\<rparr>"
      using False by (simp add: stepRoom_def)
    moreover have "\<forall>b. (t, b) \<notin> ob" using False st by force
    ultimately show ?thesis
      using n mt d st av nt False unfolding roomInv_def by auto
  next
    case True
    show ?thesis
    proof (cases a)
      case False
      have "stepRoom t a room = room" using True False by (simp add: stepRoom_def)
      moreover have "fst ` insert (t, a) ob = fst ` ob" using True st by auto
      ultimately show ?thesis
        using n mt d st av False unfolding roomInv_def by auto
    next
      case a: True
      have dm: "distinct (map time (slots room))" using mt d by simp
      have m: "markAvailable t (slots room)
          = map (\<lambda>s. if time s = t then s\<lparr>available := True\<rparr> else s) (slots room)"
        by (rule markAvailable_distinct[OF dm])
      have mt': "map time (markAvailable t (slots room)) = seenTimes room"
        unfolding m map_time_mark by (rule mt)
      have e: "stepRoom t a room = room\<lparr>slots := markAvailable t (slots room)\<rparr>"
        using True a by (simp add: stepRoom_def)
      have i: "fst ` insert (t, a) ob = fst ` ob" using True st by auto
      have av': "\<forall>s \<in> set (markAvailable t (slots room)).
          available s \<longleftrightarrow> (time s, True) \<in> insert (t, a) ob"
        unfolding m using av a by auto
      show ?thesis
        unfolding roomInv_def e using n mt' d st i av' by simp
    qed
  qed
qed


lemma map_of_updateRoom:
  "map_of (updateRoom r f rd) k = (if k = r then map_option f (map_of rd k) else map_of rd k)"
  by (induction rd) (auto simp: updateRoom_def)

lemma fst_updateRoom: "map fst (updateRoom r f rd) = map fst rd"
  by (induction rd) (auto simp: updateRoom_def)

text \<open>For a room name that is not inherited, \<open>addSlot\<close> creates the entry when it is
  not there and updates it.\<close>

lemma addSlot_Inr:
  assumes "r \<notin> set objectPrototypeNames"
  shows "addSlot rd (r, t, a) =
           Inr (updateRoom r (stepRoom t a)
                  (if map_of rd r = None
                   then rd @ [(r, \<lparr>name = r, slots = [], seenTimes = []\<rparr>)] else rd))"
  using assms by (auto simp: addSlot_def split: option.splits)

lemma roomDataInv_step:
  assumes "roomDataInv obs rd"
  shows "roomDataInv (obs @ [(r, t, a)])
           (updateRoom r (stepRoom t a)
              (if map_of rd r = None
               then rd @ [(r, \<lparr>name = r, slots = [], seenTimes = []\<rparr>)] else rd))"
proof -
  let ?new = "\<lparr>name = r, slots = [], seenTimes = []\<rparr>"
  let ?rd1 = "if map_of rd r = None then rd @ [(r, ?new)] else rd"
  let ?rd2 = "updateRoom r (stepRoom t a) ?rd1"
  let ?ob = "\<lambda>k obs. {(t', a'). (k, t', a') \<in> set obs}"
  from assms have d: "distinct (map fst rd)"
    and inv: "\<And>k. case map_of rd k of
                None \<Rightarrow> \<forall>t a. (k, t, a) \<notin> set obs
              | Some room \<Rightarrow> roomInv k (?ob k obs) room"
    by (simp_all add: roomDataInv_def)
  have d1: "distinct (map fst ?rd1)"
    using d by (auto simp: map_of_eq_None_iff)
  have m1: "map_of ?rd1 k = (if k = r \<and> map_of rd r = None then Some ?new else map_of rd k)"
    for k
    by (auto simp: map_add_def split: option.splits)
  have r1: "\<exists>room. map_of ?rd1 r = Some room \<and> roomInv r (?ob r obs) room"
  proof (cases "map_of rd r")
    case None
    with inv[of r] have "?ob r obs = {}" by auto
    moreover have "map_of ?rd1 r = Some ?new" using None by (simp add: map_add_def)
    ultimately show ?thesis using roomInv_empty[of r] by simp
  next
    case (Some room)
    with inv[of r] show ?thesis by simp
  qed
  have ins: "?ob r (obs @ [(r, t, a)]) = insert (t, a) (?ob r obs)" by auto
  have oth: "k \<noteq> r \<Longrightarrow> ?ob k (obs @ [(r, t, a)]) = ?ob k obs" for k by auto
  have "case map_of ?rd2 k of
                None \<Rightarrow> \<forall>t' a'. (k, t', a') \<notin> set (obs @ [(r, t, a)])
              | Some room \<Rightarrow> roomInv k (?ob k (obs @ [(r, t, a)])) room" for k
  proof (cases "k = r")
    case True
    from r1 obtain room where room: "map_of ?rd1 r = Some room" "roomInv r (?ob r obs) room"
      by blast
    have "map_of ?rd2 r = Some (stepRoom t a room)"
      unfolding map_of_updateRoom using room(1) by simp
    moreover have "roomInv r (?ob r (obs @ [(r, t, a)])) (stepRoom t a room)"
      unfolding ins by (rule roomInv_step[OF room(2)])
    ultimately show ?thesis using True by simp
  next
    case False
    have "map_of ?rd2 k = map_of rd k"
      unfolding map_of_updateRoom using False m1[of k] by simp
    then show ?thesis using inv[of k] False oth[OF False]
      by (auto split: option.splits)
  qed
  moreover have "distinct (map fst ?rd2)"
    unfolding fst_updateRoom by (rule d1)
  ultimately show ?thesis unfolding roomDataInv_def by blast
qed

lemma forEachSlot_inv:
  assumes "roomDataInv obs0 rd"
    and "\<forall>ob \<in> set obs. fst ob \<notin> set objectPrototypeNames"
  shows "\<exists>rd'. forEachSlot rd obs = Inr rd' \<and> roomDataInv (obs0 @ obs) rd'"
  using assms
proof (induction obs arbitrary: obs0 rd)
  case Nil
  then show ?case by simp
next
  case (Cons x xs)
  obtain r t a where x: "x = (r, t, a)" by (cases x) auto
  let ?rd2 = "updateRoom r (stepRoom t a)
                (if map_of rd r = None
                 then rd @ [(r, \<lparr>name = r, slots = [], seenTimes = []\<rparr>)] else rd)"
  from Cons.prems(2) have r: "r \<notin> set objectPrototypeNames" by (simp add: x)
  have a: "addSlot rd x = Inr ?rd2" unfolding x by (rule addSlot_Inr[OF r])
  have i: "roomDataInv (obs0 @ [x]) ?rd2" unfolding x by (rule roomDataInv_step[OF Cons.prems(1)])
  from Cons.prems(2) have "\<forall>ob \<in> set xs. fst ob \<notin> set objectPrototypeNames" by simp
  from Cons.IH[OF i this] show ?case by (simp add: a)
qed

lemma roomDataInv_forEach:
  assumes "\<forall>ob \<in> set obs. fst ob \<notin> set objectPrototypeNames"
  shows "\<exists>rd. forEachSlot [] obs = Inr rd \<and> roomDataInv obs rd"
proof -
  have "roomDataInv [] []" by (simp add: roomDataInv_def)
  from forEachSlot_inv[OF this assms] show ?thesis by simp
qed

text \<open>An observation of a room whose name is inherited makes the \<open>forEach\<close> throw: the
  object never gets an entry of its own for such a name.\<close>

lemma forEachSlot_throws:
  assumes "\<forall>k \<in> set (map fst rd). k \<notin> set objectPrototypeNames"
    and "\<exists>ob \<in> set obs. fst ob \<in> set objectPrototypeNames"
  shows "forEachSlot rd obs = Inl ''Cannot read properties of undefined''"
  using assms
proof (induction obs arbitrary: rd)
  case Nil
  then show ?case by simp
next
  case (Cons x xs)
  obtain r t a where x: "x = (r, t, a)" by (cases x) auto
  show ?case
  proof (cases "r \<in> set objectPrototypeNames")
    case True
    with Cons.prems(1) have "r \<notin> set (map fst rd)" by blast
    then have "map_of rd r = None" by (simp add: map_of_eq_None_iff)
    with True show ?thesis by (simp add: x addSlot_def)
  next
    case False
    let ?rd2 = "updateRoom r (stepRoom t a)
                  (if map_of rd r = None
                   then rd @ [(r, \<lparr>name = r, slots = [], seenTimes = []\<rparr>)] else rd)"
    have a: "addSlot rd x = Inr ?rd2" unfolding x by (rule addSlot_Inr[OF False])
    have k: "\<forall>k \<in> set (map fst ?rd2). k \<notin> set objectPrototypeNames"
      unfolding fst_updateRoom using Cons.prems(1) False by auto
    from Cons.prems(2) False have "\<exists>ob \<in> set xs. fst ob \<in> set objectPrototypeNames"
      by (auto simp: x)
    from Cons.IH[OF k this] show ?thesis by (simp add: a)
  qed
qed

lemma evaluateSlots_throws:
  assumes "\<exists>ob \<in> set (observations target els). fst ob \<in> set objectPrototypeNames"
  shows "evaluateSlots target els = Inl ''Cannot read properties of undefined''"
  using forEachSlot_throws[of "[]", OF _ assms] by (simp add: evaluateSlots_def)


lemma filter_distinct_key:
  "distinct (map f xs) \<Longrightarrow> x \<in> set xs \<Longrightarrow> filter (\<lambda>y. f y = f x) xs = [x]"
proof (induction xs)
  case Nil
  then show ?case by simp
next
  case (Cons y ys)
  show ?case
  proof (cases "x = y")
    case True
    from Cons.prems have "f y \<notin> f ` set ys" by simp
    then have "\<forall>z \<in> set ys. f z \<noteq> f y" by (metis image_eqI)
    then have "filter (\<lambda>z. f z = f y) ys = []" by (simp add: filter_empty_conv)
    with True show ?thesis by simp
  next
    case False
    with Cons.prems have x: "x \<in> set ys" by simp
    from Cons.prems have "f y \<notin> f ` set ys" by simp
    with x have "f y \<noteq> f x" by force
    with Cons x show ?thesis by simp
  qed
qed

lemma mset_objectValues: "mset (objectValues kvs) = mset (map snd kvs)"
  by (simp add: objectValues_def flip: image_mset_union)

lemma filter_single_mset:
  assumes "mset ys = mset xs" and "filter P xs = [x]"
  shows "filter P ys = [x]"
proof -
  have "mset (filter P ys) = mset (filter P xs)" using assms(1) by (simp only: mset_filter)
  then have "mset (filter P ys) = {#x#}" using assms(2) by (simp only: mset_single_iff)
  then show ?thesis by (simp only: mset_single_iff)
qed

text \<open>
  The deduplication rule. When no observation is of a room whose name is inherited from
  \<open>Object.prototype\<close>, the function returns, and whenever the elements of the page give
  an observation of room \<open>r\<close> at time \<open>t\<close>, the result has exactly one room named \<open>r\<close>,
  and that room has exactly one slot at time \<open>t\<close>; the slot is available iff some
  observation of \<open>r\<close> at \<open>t\<close> is available, whatever the number and the order of the
  observations.
\<close>

theorem slot_dedup:
  assumes "\<forall>ob \<in> set (observations target els). fst ob \<notin> set objectPrototypeNames"
    and "(r, t, a) \<in> set (observations target els)"
  shows "\<exists>rooms room. evaluateSlots target els = Inr rooms
           \<and> filter (\<lambda>rm. roomName rm = r) rooms = [room]
           \<and> filter (\<lambda>s. time s = t) (roomSlots room)
               = [\<lparr>time = t, available = ((r, t, True) \<in> set (observations target els))\<rparr>]"
proof -
  let ?obs = "observations target els"
  let ?ob = "{(t', a'). (r, t', a') \<in> set ?obs}"
  let ?g = "\<lambda>room. \<lparr>roomName = name room,
                   roomSlots = sort_key (\<lambda>s. parseTime (time s)) (slots room)\<rparr>"
  from roomDataInv_forEach[OF assms(1)] obtain rd
    where rd: "forEachSlot [] ?obs = Inr rd" and inv: "roomDataInv ?obs rd" by blast
  have ev: "evaluateSlots target els = Inr (map ?g (objectValues rd))"
    by (simp add: evaluateSlots_def rd)
  from inv have d: "distinct (map fst rd)" by (simp add: roomDataInv_def)
  from inv have k: "case map_of rd k of
                None \<Rightarrow> \<forall>t a. (k, t, a) \<notin> set ?obs
              | Some room \<Rightarrow> roomInv k {(t, a). (k, t, a) \<in> set ?obs} room" for k
    by (simp add: roomDataInv_def)
  from k[of r] assms(2) obtain acc where acc: "map_of rd r = Some acc" "roomInv r ?ob acc"
    by (cases "map_of rd r") auto
  then have mem: "(r, acc) \<in> set rd" by (simp add: map_of_SomeD)
  have names: "name v = k'" if "(k', v) \<in> set rd" for k' v
  proof -
    from that d have "map_of rd k' = Some v" by simp
    with k[of k'] show ?thesis by (simp add: roomInv_def)
  qed
  have "filter (\<lambda>room. name room = r) (map snd rd)
          = map snd (filter (\<lambda>kv. name (snd kv) = r) rd)"
    by (simp add: filter_map comp_def)
  also have "filter (\<lambda>kv. name (snd kv) = r) rd = filter (\<lambda>kv. fst kv = fst (r, acc)) rd"
    by (rule filter_cong) (auto simp: names)
  also have "\<dots> = [(r, acc)]" by (rule filter_distinct_key[OF d mem])
  finally have A: "filter (\<lambda>room. name room = r) (map snd rd) = [acc]" by simp
  have B: "filter (\<lambda>room. name room = r) (objectValues rd) = [acc]"
    by (rule filter_single_mset[OF mset_objectValues A])
  have C: "filter (\<lambda>rm. roomName rm = r) (map ?g (objectValues rd)) = [?g acc]"
    by (simp add: filter_map comp_def B)
  from acc(2) have mt: "map time (slots acc) = seenTimes acc"
    and ds: "distinct (seenTimes acc)" and st: "set (seenTimes acc) = fst ` ?ob"
    and av: "\<forall>s \<in> set (slots acc). available s \<longleftrightarrow> (time s, True) \<in> ?ob"
    by (simp_all add: roomInv_def)
  have "t \<in> fst ` ?ob" using assms(2) by force
  then have "t \<in> set (map time (slots acc))" using st mt by simp
  then obtain s0 where s0: "s0 \<in> set (slots acc)" "time s0 = t" by auto
  have dm: "distinct (map time (slots acc))" using mt ds by simp
  have f: "filter (\<lambda>s. time s = t) (slots acc) = [s0]"
    using filter_distinct_key[OF dm s0(1)] s0(2) by simp
  have "available s0 \<longleftrightarrow> (r, t, True) \<in> set ?obs" using av s0 by auto
  then have s0eq: "s0 = \<lparr>time = t, available = ((r, t, True) \<in> set ?obs)\<rparr>"
    using s0(2) by (cases s0) simp
  have D: "filter (\<lambda>s. time s = t) (roomSlots (?g acc))
      = [\<lparr>time = t, available = ((r, t, True) \<in> set ?obs)\<rparr>]"
    by (simp add: filter_sort f flip: s0eq)
  show ?thesis using ev C D by blast
qed

lemmas libcal_run = observations_def List.map_filter_simps slotObservation_def
  slot_element.simps titleRx_def dot_def apm_def isWord_def

lemma ex_observation_unavailable:
  "slotObservation ex_target ex_el_unavailable = Some (js ''360H'', js ''1:30pm'', False)"
  by (simp only: ex_target_def ex_el_unavailable_def libcal_run num_eval rx_run parse_run
      cong: if_weak_cong option.case_cong_weak list.case_cong_weak)

lemma ex_observation_available:
  "slotObservation ex_target ex_el_available = Some (js ''360H'', js ''1:30pm'', True)"
  by (simp only: ex_target_def ex_el_available_def libcal_run num_eval rx_run parse_run
      cong: if_weak_cong option.case_cong_weak list.case_cong_weak)

lemma room_360H_not_inherited: "js ''360H'' \<notin> set objectPrototypeNames"
  by (simp add: objectPrototypeNames_def js_def)

text \<open>
  The same slot of room 360H at 1:30pm, once unavailable and once available, in both
  orders: one room, one slot, available.
\<close>

theorem slot_dedup_witness:
  "list_all (\<lambda>ob. fst ob \<notin> set objectPrototypeNames)
     (observations ex_target [ex_el_unavailable, ex_el_available])
   \<and> (js ''360H'', js ''1:30pm'', False)
       \<in> set (observations ex_target [ex_el_unavailable, ex_el_available])
   \<and> (\<exists>rooms room.
          evaluateSlots ex_target [ex_el_unavailable, ex_el_available] = Inr rooms
          \<and> filter (\<lambda>rm. roomName rm = js ''360H'') rooms = [room]
          \<and> filter (\<lambda>s. time s = js ''1:30pm'') (roomSlots room)
              = [\<lparr>time = js ''1:30pm'', available = True\<rparr>])
   \<and> (js ''360H'', js ''1:30pm'', True)
       \<in> set (observations ex_target [ex_el_available, ex_el_unavailable])
   \<and> (\<exists>rooms room.
          evaluateSlots ex_target [ex_el_available, ex_el_unavailable] = Inr rooms
          \<and> filter (\<lambda>rm. roomName rm = js ''360H'') rooms = [room]
          \<and> filter (\<lambda>s. time s = js ''1:30pm'') (roomSlots room)
              = [\<lparr>time = js ''1:30pm'', available = True\<rparr>])"
proof -
  have o1: "observations ex_target [ex_el_unavailable, ex_el_available]
      = [(js ''360H'', js ''1:30pm'', False), (js ''360H'', js ''1:30pm'', True)]"
    by (simp add: observations_def List.map_filter_simps ex_observation_unavailable
        ex_observation_available)
  have o2: "observations ex_target [ex_el_available, ex_el_unavailable]
      = [(js ''360H'', js ''1:30pm'', True), (js ''360H'', js ''1:30pm'', False)]"
    by (simp add: observations_def List.map_filter_simps ex_observation_unavailable
        ex_observation_available)
  have n1: "\<forall>ob \<in> set (observations ex_target [ex_el_unavailable, ex_el_available]).
              fst ob \<notin> set objectPrototypeNames"
    unfolding o1 using room_360H_not_inherited by simp
  have n2: "\<forall>ob \<in> set (observations ex_target [ex_el_available, ex_el_unavailable]).
              fst ob \<notin> set objectPrototypeNames"
    unfolding o2 using room_360H_not_inherited by simp
  have l1: "list_all (\<lambda>ob. fst ob \<notin> set objectPrototypeNames)
     (observations ex_target [ex_el_unavailable, ex_el_available])"
    using n1 unfolding list_all_iff .
  have m1: "(js ''360H'', js ''1:30pm'', False)
       \<in> set (observations ex_target [ex_el_unavailable, ex_el_available])"
    by (simp add: o1)
  have m2: "(js ''360H'', js ''1:30pm'', True)
       \<in> set (observations ex_target [ex_el_available, ex_el_unavailable])"
    by (simp add: o2)
  have t1: "((js ''360H'', js ''1:30pm'', True)
       \<in> set (observations ex_target [ex_el_unavailable, ex_el_available])) = True"
    by (simp add: o1)
  have t2: "((js ''360H'', js ''1:30pm'', True)
       \<in> set (observations ex_target [ex_el_available, ex_el_unavailable])) = True"
    by (simp add: o2)
  show ?thesis
    using l1 m1 m2 slot_dedup[OF n1 m1, unfolded t1] slot_dedup[OF n2 m2, unfolded t2]
    by blast
qed

subsection \<open>A room whose name is an inherited property\<close>

lemma ex_observation_constructor_unavailable:
  "slotObservation ex_target ex_el_constructor_unavailable
     = Some (js ''constructor'', js ''1:30pm'', False)"
  by (simp only: ex_target_def ex_el_constructor_unavailable_def libcal_run num_eval rx_run
      parse_run cong: if_weak_cong option.case_cong_weak list.case_cong_weak)

lemma ex_observation_constructor_available:
  "slotObservation ex_target ex_el_constructor_available
     = Some (js ''constructor'', js ''1:30pm'', True)"
  by (simp only: ex_target_def ex_el_constructor_available_def libcal_run num_eval rx_run
      parse_run cong: if_weak_cong option.case_cong_weak list.case_cong_weak)

lemma constructor_inherited: "js ''constructor'' \<in> set objectPrototypeNames"
  by (simp add: objectPrototypeNames_def)

lemma ex_constructor_observations:
  "observations ex_target [ex_el_constructor_unavailable, ex_el_constructor_available]
     = [(js ''constructor'', js ''1:30pm'', False), (js ''constructor'', js ''1:30pm'', True)]"
  by (simp add: observations_def List.map_filter_simps
      ex_observation_constructor_unavailable ex_observation_constructor_available)

lemma ex_constructor_throws:
  "evaluateSlots ex_target [ex_el_constructor_unavailable, ex_el_constructor_available]
     = Inl ''Cannot read properties of undefined''"
  by (rule evaluateSlots_throws)
     (simp add: ex_constructor_observations constructor_inherited)

text \<open>
  Claim C9 (slot deduplication, upgrade rule): two observations of the same room and
  time give a single slot, available as soon as one of the two is. The source does so
  for every room name that \<open>Object.prototype\<close> does not define (\<open>slot_dedup\<close>). For the two
  observations of the room that the page names \<open>constructor\<close> at 1:30pm, the first
  unavailable and the second available, \<open>roomData[trimmedRoom]\<close> is the inherited
  function: the function passed to \<open>page.evaluate\<close> throws at the first observation, and
  \<open>scrapeLibCal\<close> returns the library with no rooms and the error, so that the result
  has no slot for the key.
\<close>

theorem inherited_room_name_throws:
  "observations ex_target [ex_el_constructor_unavailable, ex_el_constructor_available]
     = [(js ''constructor'', js ''1:30pm'', False), (js ''constructor'', js ''1:30pm'', True)]
   \<and> evaluateSlots ex_target [ex_el_constructor_unavailable, ex_el_constructor_available]
     = Inl ''Cannot read properties of undefined''
   \<and> scrapeLibCal ex_hsl ex_target ex_page_constructor 61000
     = Inr (degraded ex_hsl 61000 (Message ''Cannot read properties of undefined''))"
  by (simp add: ex_constructor_observations ex_constructor_throws scrapeLibCal_def
      ex_page_constructor_def Let_def)

section \<open>Properties of the hours cache\<close>

text \<open>The date that keys the cache is the Monday of the week of the date asked for.\<close>

lemma getMondayOfWeek_monday:
  "getDay (getMondayOfWeek d) = 1 \<and> getMondayOfWeek d \<le> d \<and> d \<le> getMondayOfWeek d + 6"
proof -
  define q where "q = (d + 4) div 7"
  define r where "r = (d + 4) mod 7"
  have d: "d + 4 = 7 * q + r" unfolding q_def r_def by simp
  have r: "0 \<le> r" "r < 7" unfolding r_def by simp_all
  have m: "(7 * k + 1) mod 7 = (1 :: int)" for k :: int
    by (subst mod_mult_self4) simp
  show ?thesis
  proof (cases "r = 0")
    case True
    then have g: "getMondayOfWeek d = d - 6"
      by (simp add: getMondayOfWeek_def getDay_def r_def)
    have "d - 6 + 4 = 7 * (q - 1) + 1" using d True by simp
    then have "getDay (d - 6) = 1" unfolding getDay_def by (simp only: m)
    then show ?thesis using g by simp
  next
    case False
    then have g: "getMondayOfWeek d = d + (1 - r)"
      by (simp add: getMondayOfWeek_def getDay_def r_def)
    have "d + (1 - r) + 4 = 7 * q + 1" using d by simp
    then have "getDay (d + (1 - r)) = 1" unfolding getDay_def by (simp only: m)
    then show ?thesis using g r False by simp
  qed
qed

lemma config_faes: "LIBCAL_HOURS_CONFIG ''faes'' \<noteq> None"
  by (simp add: LIBCAL_HOURS_CONFIG_def)

lemma hours_hit:
  assumes "LIBCAL_HOURS_CONFIG l \<noteq> None"
    and "hoursCache st (l, getMondayOfWeek d) = Some e"
    and "h_lastUpdated e \<noteq> 0" "now - h_lastUpdated e < HOURS_CACHE_TTL"
  shows "fetchLibCalHours st l d now = (st, HoursReturned (Some (h_data e)))"
  using assms by (auto simp: fetchLibCalHours_def hoursFresh_def Let_def)

lemma hours_miss:
  assumes "LIBCAL_HOURS_CONFIG l \<noteq> None"
    and "\<not> hoursFresh (hoursCache st (l, getMondayOfWeek d)) now"
  shows "fetchLibCalHours st l d now =
           (st\<lparr>hoursRequests := hoursRequests st @ [(l, getMondayOfWeek d)]\<rparr>,
            HoursAwaits (length (hoursRequests st)))"
  using assms by (auto simp: fetchLibCalHours_def Let_def)

lemma hours_call_cache: "hoursCache (fst (fetchLibCalHours st l d now)) = hoursCache st"
  by (auto simp: fetchLibCalHours_def Let_def split: option.splits)

lemma hours_write:
  assumes "LIBCAL_HOURS_CONFIG l \<noteq> None" "req < length (hoursRequests st)"
    and "hoursRequests st ! req = (l, mon)"
  shows "\<exists>e. hoursCache (fst (fetchLibCalHoursResumes dash st req (Inr html) t)) (l, mon) = Some e
            \<and> h_lastUpdated e = t"
  using assms by (auto simp: fetchLibCalHoursResumes_def Let_def)

lemma writtenSince_step:
  assumes "writtenSince st k t0" "t0 \<le> eventTime ev"
  shows "writtenSince (hours_step dash st ev) k t0"
proof (cases ev)
  case (HoursCall l d now)
  then show ?thesis using assms(1) by (simp add: writtenSince_def hours_call_cache)
next
  case (HoursResponse req r now)
  then show ?thesis using assms
    by (auto simp: writtenSince_def fetchLibCalHoursResumes_def Let_def
             split: option.splits sum.splits prod.splits)
qed

lemma writtenSince_run:
  assumes "writtenSince st k t0" "list_all (\<lambda>ev. t0 \<le> eventTime ev) evs"
  shows "writtenSince (hours_run dash st evs) k t0"
  using assms unfolding hours_run_def
  by (induction evs arbitrary: st) (simp_all add: writtenSince_step)

subsection \<open>Two calls before the first response\<close>

lemma ex_hours_first_eval:
  "ex_hours_first = (\<lparr>hoursCache = Map.empty, hoursRequests = [(''faes'', 20472)]\<rparr>, HoursAwaits 0)"
  by (simp add: ex_hours_first_def fetchLibCalHours_def hours_init_def LIBCAL_HOURS_CONFIG_def
        hoursFresh_def getMondayOfWeek_def getDay_def Let_def)

lemma ex_hours_second_eval:
  "ex_hours_second = (\<lparr>hoursCache = Map.empty,
       hoursRequests = [(''faes'', 20472), (''faes'', 20472)]\<rparr>, HoursAwaits 1)"
  by (simp add: ex_hours_second_def ex_hours_first_eval fetchLibCalHours_def
        LIBCAL_HOURS_CONFIG_def hoursFresh_def getMondayOfWeek_def getDay_def Let_def)

text \<open>
  Two calls of \<open>fetchLibCalHours\<close> for \<open>faes\<close>, for the Tuesday and the Thursday of one
  week, the second before the response to the first has arrived: both find no entry
  for the key and each issues an upstream request for the same key. \<open>fetchLibCalHours\<close>
  has no table of requests in flight.
\<close>

theorem concurrent_hours_requests_counterexample:
  "snd ex_hours_first = HoursAwaits 0 \<and> snd ex_hours_second = HoursAwaits 1
     \<and> hoursRequests (fst ex_hours_second) = [(''faes'', 20472), (''faes'', 20472)]
     \<and> getMondayOfWeek 20473 = 20472 \<and> getMondayOfWeek 20475 = 20472"
  by (simp add: ex_hours_first_eval ex_hours_second_eval getMondayOfWeek_def getDay_def)


subsection \<open>The hours cache is a cache with a time to live\<close>

text \<open>
  Claim C6, amended. \<open>fetchLibCalHours\<close> has a table of its own, \<open>hoursCache\<close>, which is
  not the table of the per-date cache and is keyed by the library and the Monday of the
  week of the date (the Monday is at most six days before the date), with a time to
  live of one hour. Once the response to a request for a key has been received at
  \<open>t0\<close> and stored, whatever calls and responses follow, a call for that library and a
  date of that week at a time \<open>now\<close> with \<open>now - t0\<close> less than one hour returns cached
  hours and issues no upstream request. A call that finds no fresh entry for its key
  always issues an upstream request of its own: concurrent calls for one key are not
  merged.
\<close>

theorem hours_cache:
  assumes "LIBCAL_HOURS_CONFIG l \<noteq> None"
    and "req < length (hoursRequests st0)"
    and "hoursRequests st0 ! req = (l, getMondayOfWeek d)"
    and "st1 = fst (fetchLibCalHoursResumes dash st0 req (Inr html) t0)"
    and "0 < t0"
    and "st2 = hours_run dash st1 evs"
    and "list_all (\<lambda>ev. t0 \<le> eventTime ev) evs"
    and "now - t0 < HOURS_CACHE_TTL"
  shows "HOURS_CACHE_TTL = 3600000
       \<and> getDay (getMondayOfWeek d) = 1 \<and> getMondayOfWeek d \<le> d \<and> d \<le> getMondayOfWeek d + 6
       \<and> (\<exists>hours. fetchLibCalHours st2 l d now = (st2, HoursReturned (Some hours)))
       \<and> (\<forall>st. hoursFresh (hoursCache st (l, getMondayOfWeek d)) now
              \<or> fetchLibCalHours st l d now =
                   (st\<lparr>hoursRequests := hoursRequests st @ [(l, getMondayOfWeek d)]\<rparr>,
                    HoursAwaits (length (hoursRequests st))))"
proof -
  have ttl: "HOURS_CACHE_TTL = 3600000" by (simp add: HOURS_CACHE_TTL_def)
  obtain e where e: "hoursCache st1 (l, getMondayOfWeek d) = Some e" "h_lastUpdated e = t0"
    using hours_write[OF assms(1,2,3)] assms(4) by blast
  then have "writtenSince st1 (l, getMondayOfWeek d) t0" by (simp add: writtenSince_def)
  then have "writtenSince st2 (l, getMondayOfWeek d) t0"
    unfolding assms(6) using assms(7) by (rule writtenSince_run)
  then obtain e2 where e2: "hoursCache st2 (l, getMondayOfWeek d) = Some e2"
      "t0 \<le> h_lastUpdated e2"
    by (auto simp: writtenSince_def split: option.splits)
  have "h_lastUpdated e2 \<noteq> 0" "now - h_lastUpdated e2 < HOURS_CACHE_TTL"
    using e2(2) assms(5,8) by auto
  then have hit: "fetchLibCalHours st2 l d now = (st2, HoursReturned (Some (h_data e2)))"
    using hours_hit[OF assms(1) e2(1)] by blast
  have miss: "\<forall>st. hoursFresh (hoursCache st (l, getMondayOfWeek d)) now
              \<or> fetchLibCalHours st l d now =
                   (st\<lparr>hoursRequests := hoursRequests st @ [(l, getMondayOfWeek d)]\<rparr>,
                    HoursAwaits (length (hoursRequests st)))"
    using hours_miss[OF assms(1)] by blast
  show ?thesis using ttl getMondayOfWeek_monday[of d] hit miss by blast
qed

text \<open>
  After the two calls of the example and the response to the first at 1500, the response
  to the second and a further call: a call for the Friday of that week, one millisecond
  less than an hour after 1500, is served from \<open>hoursCache\<close>.
\<close>

theorem hours_cache_witness:
  "LIBCAL_HOURS_CONFIG ''faes'' \<noteq> None
   \<and> 0 < length (hoursRequests (fst ex_hours_second))
   \<and> hoursRequests (fst ex_hours_second) ! 0 = (''faes'', getMondayOfWeek 20476)
   \<and> list_all (\<lambda>ev. 1500 \<le> eventTime ev) ex_hours_later
   \<and> (3601499 :: int) - 1500 < HOURS_CACHE_TTL
   \<and> getDay (getMondayOfWeek 20476) = 1
   \<and> (\<exists>hours. fetchLibCalHours (hours_run dash_index_js ex_hours_cached ex_hours_later)
                  ''faes'' 20476 3601499
                = (hours_run dash_index_js ex_hours_cached ex_hours_later,
                   HoursReturned (Some hours)))"
proof -
  have 1: "LIBCAL_HOURS_CONFIG ''faes'' \<noteq> None" by (simp add: LIBCAL_HOURS_CONFIG_def)
  have 2: "0 < length (hoursRequests (fst ex_hours_second))"
    by (simp add: ex_hours_second_eval)
  have m: "getMondayOfWeek 20476 = 20472" by (simp add: getMondayOfWeek_def getDay_def)
  have 3: "hoursRequests (fst ex_hours_second) ! 0 = (''faes'', getMondayOfWeek 20476)"
    by (simp add: ex_hours_second_eval m)
  have 4: "list_all (\<lambda>ev. 1500 \<le> eventTime ev) ex_hours_later"
    by (simp add: ex_hours_later_def)
  have 5: "(3601499 :: int) - 1500 < HOURS_CACHE_TTL" by (simp add: HOURS_CACHE_TTL_def)
  have 0: "(0 :: int) < 1500" by simp
  show ?thesis
    using hours_cache[OF 1 2 3 ex_hours_cached_def 0 refl 4 5] 1 2 3 4 5 by blast
qed

text \<open>
  In that state the entry is the one written at 1600 by the second response. One hour
  after 1600 it has expired: the same call issues a third request.
\<close>

lemma ex_hours_expired:
  "fetchLibCalHours (hours_run dash_index_js ex_hours_cached ex_hours_later) ''faes'' 20476 3601600
     = (hours_run dash_index_js ex_hours_cached ex_hours_later
          \<lparr>hoursRequests := [(''faes'', 20472), (''faes'', 20472), (''faes'', 20472)]\<rparr>,
        HoursAwaits 2)"
proof -
  let ?k = "(''faes'', 20472 :: int)"
  have c: "LIBCAL_HOURS_CONFIG ''faes'' \<noteq> None" by (simp add: LIBCAL_HOURS_CONFIG_def)
  have m: "getMondayOfWeek 20476 = 20472" by (simp add: getMondayOfWeek_def getDay_def)
  have r1: "hoursRequests ex_hours_cached = [?k, ?k]"
    unfolding ex_hours_cached_def ex_hours_second_eval
    by (simp add: fetchLibCalHoursResumes_def LIBCAL_HOURS_CONFIG_def Let_def)
  define st where "st = fst (fetchLibCalHoursResumes dash_index_js ex_hours_cached 1 (Inr ex_table) 1600)"
  have r2: "hoursRequests st = [?k, ?k]"
    unfolding st_def using r1
    by (simp add: fetchLibCalHoursResumes_def LIBCAL_HOURS_CONFIG_def Let_def)
  obtain e where e: "hoursCache st ?k = Some e" "h_lastUpdated e = 1600"
    using hours_write[OF c, of 1 ex_hours_cached 20472 dash_index_js ex_table 1600] r1
    unfolding st_def by auto
  have f: "hoursFresh (hoursCache st ?k) 2000"
    using e by (simp add: hoursFresh_def HOURS_CACHE_TTL_def)
  have "hours_run dash_index_js ex_hours_cached ex_hours_later
          = fst (fetchLibCalHours st ''faes'' 20476 2000)"
    unfolding hours_run_def ex_hours_later_def st_def by simp
  also have "\<dots> = st"
    using hours_hit[OF c, of st 20476 e 2000] e by (simp add: m HOURS_CACHE_TTL_def)
  finally have run: "hours_run dash_index_js ex_hours_cached ex_hours_later = st" .
  have "\<not> hoursFresh (hoursCache st (''faes'', getMondayOfWeek 20476)) 3601600"
    using e by (simp add: m hoursFresh_def HOURS_CACHE_TTL_def)
  from hours_miss[OF c this] show ?thesis unfolding run by (simp add: r2 m)
qed

section \<open>What the adapters do on a failure\<close>

text \<open>
  \<open>fetchOsuApi\<close> returns in every case: with the rooms, or with no rooms and an error.
\<close>

lemma fetchOsuApi_never_raises:
  "\<exists>f. fetchOsuApi library dh response now = Inr f
       \<and> (isLive f \<and> error f = None \<or> rooms f = [] \<and> error f \<noteq> None)"
  by (auto simp: fetchOsuApi_def degraded_def split: api_response.splits api_body.splits)

lemma fetchOsuApi_failure:
  assumes "\<And>code rs. response = Response code (ApiRooms rs) \<Longrightarrow> \<not> ok code"
  shows "\<exists>err. fetchOsuApi library dh response now = Inr (degraded library now err)"
  using assms
  by (auto simp: fetchOsuApi_def split: api_response.splits api_body.splits)

lemma scrapeLibCal_guarded:
  assumes "launch w = None" "close w = None"
  shows "\<exists>f. scrapeLibCal library target w now = Inr f
       \<and> (isLive f \<and> error f = None \<or> rooms f = [] \<and> error f \<noteq> None)"
  using assms by (auto simp: scrapeLibCal_def degraded_def Let_def split: sum.splits)

lemma scrapeLibCal_launch:
  assumes "importPuppeteer w" "launch w = Some err"
  shows "scrapeLibCal library target w now = Inl err"
  using assms by (simp add: scrapeLibCal_def)

lemma scrapeLibCal_close:
  assumes "importPuppeteer w" "launch w = None" "close w = Some err"
  shows "scrapeLibCal library target w now = Inl err"
  using assms by (simp add: scrapeLibCal_def Let_def)

lemma ex_page_fails_degraded:
  "scrapeLibCal ex_hsl (js ''January 20, 2026'') ex_page_fails 61000
     = Inr (degraded ex_hsl 61000 (Message ''Waiting for selector failed''))"
  by (simp add: scrapeLibCal_def ex_page_fails_def Let_def)

text \<open>
  Claim C2. A source adapter never raises past its own boundary: on any internal
  failure it returns a facility with no rooms and an error, so that the failure of one
  source does not fail the snapshot. \<open>fetchOsuApi\<close> does so (\<open>fetchOsuApi_never_raises\<close>),
  and so does \<open>scrapeLibCal\<close> when the import or the work on the page fails
  (\<open>scrapeLibCal_guarded\<close>). The launch of the browser is outside the \<open>try\<close> block: for
  the library \<open>hsl\<close> and the date 20 January 2026, with \<open>puppeteer\<close> installed and a launch
  that rejects, \<open>scrapeLibCal\<close> rejects with the error of the launch instead of returning
  the degraded facility, and \<open>Promise.all\<close> over the four libraries rejects with it,
  although the three API libraries have answered.
\<close>

theorem launch_failure_raises:
  "scrapeLibCal ex_hsl (js ''January 20, 2026'') ex_launch_fails 61000
     = Inl ''Failed to launch the browser process''
   \<and> populationResults ex_upstream (js ''January 20, 2026'') 61000
     = Inl ''Failed to launch the browser process''"
  by (simp add: scrapeLibCal_def ex_launch_fails_def populationResults_def LIBRARIES_def
        fetchLibrary_def fetchOsuApi_def ok_def ex_upstream_def ex_hsl_def)

end
